theory Spec2Isabelle
  imports Complex_Main
begin

section \<open>SQL values\<close>

text \<open>
  The warehouse is MySQL. A nullable column is an \<open>option\<close> (\<open>None\<close> is NULL); a
  \<open>DECIMAL\<close> value is an exact number, held as a \<open>real\<close>; a \<open>BIGINT\<close> count is an
  \<open>int\<close>; a \<open>DATE\<close> is an \<open>int\<close> (a day number); a \<open>VARCHAR\<close> is a \<open>string\<close>.
  Comparisons are three-valued (\<open>bool option\<close>): a \<open>WHEN\<close> or \<open>WHERE\<close> takes a row
  only when its condition is \<open>Some True\<close>. Arithmetic with a NULL operand is NULL, and a
  division by zero in a \<open>SELECT\<close> is NULL. The server computes a \<open>DECIMAL\<close> quotient at a
  finite scale. Where only the NULL cases of a quotient matter it is taken as exact
  (\<open>sql_div\<close>); where its value matters the quotient that the server computes is a
  parameter of the model (\<open>sql_quot\<close>).
\<close>

definition is_true :: "bool option \<Rightarrow> bool" where
  "is_true b = (b = Some True)"

definition sql_gt :: "real option \<Rightarrow> real option \<Rightarrow> bool option" where
  "sql_gt a b = (case a of None \<Rightarrow> None | Some x \<Rightarrow> (case b of None \<Rightarrow> None | Some y \<Rightarrow> Some (y < x)))"

definition sql_lt :: "real option \<Rightarrow> real option \<Rightarrow> bool option" where
  "sql_lt a b = (case a of None \<Rightarrow> None | Some x \<Rightarrow> (case b of None \<Rightarrow> None | Some y \<Rightarrow> Some (x < y)))"

definition sql_le :: "real option \<Rightarrow> real option \<Rightarrow> bool option" where
  "sql_le a b = (case a of None \<Rightarrow> None | Some x \<Rightarrow> (case b of None \<Rightarrow> None | Some y \<Rightarrow> Some (x \<le> y)))"

definition sql_ge :: "real option \<Rightarrow> real option \<Rightarrow> bool option" where
  "sql_ge a b = sql_le b a"

definition sql_and :: "bool option \<Rightarrow> bool option \<Rightarrow> bool option" where
  "sql_and a b =
     (if a = Some False \<or> b = Some False then Some False
      else if a = Some True \<and> b = Some True then Some True else None)"

definition sql_or :: "bool option \<Rightarrow> bool option \<Rightarrow> bool option" where
  "sql_or a b =
     (if a = Some True \<or> b = Some True then Some True
      else if a = Some False \<and> b = Some False then Some False else None)"

text \<open>\<open>x BETWEEN lo AND hi\<close> is \<open>x >= lo AND x <= hi\<close>.\<close>

definition sql_between :: "real option \<Rightarrow> real option \<Rightarrow> real option \<Rightarrow> bool option" where
  "sql_between x lo hi = sql_and (sql_ge x lo) (sql_le x hi)"

definition sql_sub :: "real option \<Rightarrow> real option \<Rightarrow> real option" where
  "sql_sub a b = (case a of None \<Rightarrow> None | Some x \<Rightarrow> (case b of None \<Rightarrow> None | Some y \<Rightarrow> Some (x - y)))"

definition sql_mul :: "real option \<Rightarrow> real option \<Rightarrow> real option" where
  "sql_mul a b = (case a of None \<Rightarrow> None | Some x \<Rightarrow> (case b of None \<Rightarrow> None | Some y \<Rightarrow> Some (x * y)))"

definition sql_div :: "real option \<Rightarrow> real option \<Rightarrow> real option" where
  "sql_div a b =
     (case a of None \<Rightarrow> None
      | Some x \<Rightarrow> (case b of None \<Rightarrow> None | Some y \<Rightarrow> if y = 0 then None else Some (x / y)))"

text \<open>
  \<open>x / y\<close> with the server's quotient \<open>quot x y\<close> for a divisor that is not zero.
\<close>

definition sql_quot :: "(real \<Rightarrow> real \<Rightarrow> real) \<Rightarrow> real option \<Rightarrow> real option \<Rightarrow> real option" where
  "sql_quot quot a b =
     (case a of None \<Rightarrow> None
      | Some x \<Rightarrow> (case b of None \<Rightarrow> None | Some y \<Rightarrow> if y = 0 then None else Some (quot x y)))"

text \<open>Rounding to \<open>d\<close> decimals, half away from zero, as the server rounds a \<open>DECIMAL\<close>.\<close>

definition round_dec :: "nat \<Rightarrow> real \<Rightarrow> real" where
  "round_dec d x =
     (if 0 \<le> x then of_int \<lfloor>x * 10 ^ d + 1/2\<rfloor> / 10 ^ d
      else - (of_int \<lfloor>- x * 10 ^ d + 1/2\<rfloor> / 10 ^ d))"


definition sql_coalesce :: "'a option \<Rightarrow> 'a option \<Rightarrow> 'a option" where
  "sql_coalesce a b = (case a of None \<Rightarrow> b | Some x \<Rightarrow> Some x)"

definition sql_is_null :: "'a option \<Rightarrow> bool" where
  "sql_is_null a = (a = None)"

text \<open>A \<open>BIGINT\<close> in a numeric expression.\<close>

definition sql_real :: "int option \<Rightarrow> real option" where
  "sql_real a = map_option of_int a"

text \<open>The aggregates skip NULLs, and are NULL over no non-NULL value.\<close>

fun non_null :: "'a option list \<Rightarrow> 'a list" where
  "non_null [] = []"
| "non_null (None # xs) = non_null xs"
| "non_null (Some x # xs) = x # non_null xs"

definition sql_sum :: "real option list \<Rightarrow> real option" where
  "sql_sum xs = (if non_null xs = [] then None else Some (sum_list (non_null xs)))"

definition sql_sum_int :: "int option list \<Rightarrow> int option" where
  "sql_sum_int xs = (if non_null xs = [] then None else Some (sum_list (non_null xs)))"

definition sql_avg :: "real option list \<Rightarrow> real option" where
  "sql_avg xs =
     (if non_null xs = [] then None
      else Some (sum_list (non_null xs) / of_nat (length (non_null xs))))"

definition sql_max :: "'a::linorder option list \<Rightarrow> 'a option" where
  "sql_max xs = (case non_null xs of [] \<Rightarrow> None | y # ys \<Rightarrow> Some (fold max ys y))"

definition sql_min :: "'a::linorder option list \<Rightarrow> 'a option" where
  "sql_min xs = (case non_null xs of [] \<Rightarrow> None | y # ys \<Rightarrow> Some (fold min ys y))"

text \<open>
  \<open>STDDEV\<close> is the population standard deviation. The server computes it in floating
  point; here it is the exact root of the exact variance.
\<close>

definition sql_stddev :: "real option list \<Rightarrow> real option" where
  "sql_stddev xs =
     (if non_null xs = [] then None
      else Some (sqrt (sum_list (map (\<lambda>x. (x - sum_list (non_null xs) / of_nat (length (non_null xs)))\<^sup>2)
                                      (non_null xs))
                       / of_nat (length (non_null xs)))))"

text \<open>The server errors that the statements of the scripts can raise.\<close>

datatype sql_error =
    ER_BAD_NULL_ERROR string
  | ER_WARN_DATA_OUT_OF_RANGE string
  | ER_DUP_ENTRY string
  | ER_PRIMARY_CANT_HAVE_NULL
  | ER_TRUNCATED_WRONG_VALUE
  | ER_KEY_COLUMN_DOES_NOT_EXIST string
  | ER_WINDOW_INVALID_WINDOW_FUNC_USE string

section \<open>The star schema\<close>

text \<open>
  \<open>fact_credit_metrics_qtr\<close> and the three dimensions, as \<open>CREATE TABLE\<close> declares them:
  the grain columns and the date attributes are \<open>NOT NULL\<close>, every measure and every
  geography or product attribute is nullable. The field prefixes are the aliases the
  queries use (\<open>f\<close>, \<open>d\<close>, \<open>g\<close>, \<open>p\<close>).
\<close>

record fact_row =
  f_quarter_key :: int
  f_geo_key :: int
  f_product_key :: int
  f_originations_cnt :: "int option"
  f_origination_amt :: "real option"
  f_balance_amt :: "real option"
  f_default_rate :: "real option"
  f_prime_rate :: "real option"
  f_lending_rate :: "real option"

record dim_date_row =
  d_quarter_key :: int
  d_year :: int
  d_quarter :: int
  d_quarter_start :: int
  d_quarter_end :: int

record dim_geo_row =
  g_geo_key :: int
  g_country :: "string option"
  g_state_province :: "string option"
  g_city :: "string option"

record dim_product_row =
  p_product_key :: int
  p_product_code :: "string option"
  p_product_type :: "string option"
  p_segment :: "string option"

section \<open>Derived measures of the cube \<open>CreditMetricsCalculated\<close>\<close>

subsection \<open>Portfolio health score\<close>

definition portfolioHealthScore :: "real option \<Rightarrow> real option" where
  "portfolioHealthScore default_rate =
     (if is_true (sql_le default_rate (Some (2/100))) then Some 100
      else if is_true (sql_le default_rate (Some (5/100)))
        then sql_sub (Some 80) (sql_mul (sql_sub default_rate (Some (2/100))) (Some 1000))
      else if is_true (sql_le default_rate (Some (10/100)))
        then sql_sub (Some 50) (sql_mul (sql_sub default_rate (Some (5/100))) (Some 1000))
      else Some 0)"

subsection \<open>Risk buckets\<close>

text \<open>The dimension \<open>riskCategory\<close> of the cube \<open>CreditMetrics\<close>.\<close>

definition riskCategory :: "real option \<Rightarrow> string" where
  "riskCategory default_rate =
     (if is_true (sql_gt default_rate (Some (5/100))) then ''High Risk''
      else if is_true (sql_between default_rate (Some (2/100)) (Some (5/100))) then ''Medium Risk''
      else if is_true (sql_lt default_rate (Some (2/100))) then ''Low Risk''
      else ''Unknown'')"

text \<open>The dimension \<open>riskCategoryDetailed\<close> of the cube \<open>CreditMetricsCalculated\<close>.\<close>

definition riskCategoryDetailed :: "real option \<Rightarrow> string" where
  "riskCategoryDetailed default_rate =
     (if is_true (sql_gt default_rate (Some (10/100))) then ''Critical Risk''
      else if is_true (sql_gt default_rate (Some (5/100))) then ''High Risk''
      else if is_true (sql_between default_rate (Some (3/100)) (Some (5/100))) then ''Medium-High Risk''
      else if is_true (sql_between default_rate (Some (2/100)) (Some (3/100))) then ''Medium Risk''
      else if is_true (sql_between default_rate (Some (1/100)) (Some (2/100))) then ''Low-Medium Risk''
      else if is_true (sql_lt default_rate (Some (1/100))) then ''Low Risk''
      else ''Unknown'')"

text \<open>
  The column \<open>risk_category\<close> of the views \<open>v_olap_credit_metrics\<close> and
  \<open>v_powerbi_optimized\<close>: the same three buckets, written with strict comparisons.
\<close>

definition risk_category :: "real option \<Rightarrow> string" where
  "risk_category default_rate =
     (if is_true (sql_gt default_rate (Some (5/100))) then ''High Risk''
      else if is_true (sql_gt default_rate (Some (2/100))) then ''Medium Risk''
      else if is_true (sql_gt default_rate (Some 0)) then ''Low Risk''
      else ''Unknown'')"

text \<open>The three-level bucket that a six-level bucket belongs to, by its name.\<close>

definition coarse_bucket :: "string \<Rightarrow> string" where
  "coarse_bucket b =
     (if b = ''Critical Risk'' \<or> b = ''High Risk'' then ''High Risk''
      else if b = ''Medium-High Risk'' \<or> b = ''Medium Risk'' then ''Medium Risk''
      else if b = ''Low-Medium Risk'' \<or> b = ''Low Risk'' then ''Low Risk''
      else ''Unknown'')"

subsection \<open>Per-quarter aggregates: market share and performance\<close>

text \<open>
  The correlated subqueries
  \<open>SELECT SUM(origination_amt) FROM fact_credit_metrics_qtr WHERE quarter_key = ...\<close> and
  \<open>SELECT AVG(origination_amt) ...\<close>, over the rows of the fact table.
\<close>

definition quarter_sum :: "fact_row list \<Rightarrow> int \<Rightarrow> real option" where
  "quarter_sum rows q = sql_sum (map f_origination_amt (filter (\<lambda>x. f_quarter_key x = q) rows))"

definition quarter_avg :: "fact_row list \<Rightarrow> int \<Rightarrow> real option" where
  "quarter_avg rows q = sql_avg (map f_origination_amt (filter (\<lambda>x. f_quarter_key x = q) rows))"

definition marketShareByProduct :: "fact_row list \<Rightarrow> fact_row \<Rightarrow> real option" where
  "marketShareByProduct rows r =
     sql_mul (sql_div (f_origination_amt r) (quarter_sum rows (f_quarter_key r))) (Some 100)"

definition performanceVsAverage :: "fact_row list \<Rightarrow> fact_row \<Rightarrow> real option" where
  "performanceVsAverage rows r =
     (if is_true (sql_gt (quarter_avg rows (f_quarter_key r)) (Some 0))
      then sql_mul
             (sql_div (sql_sub (f_origination_amt r) (quarter_avg rows (f_quarter_key r)))
                      (quarter_avg rows (f_quarter_key r)))
             (Some 100)
      else Some 0)"

definition performanceCategory :: "fact_row list \<Rightarrow> fact_row \<Rightarrow> string" where
  "performanceCategory rows r =
     (if is_true (sql_gt (f_origination_amt r)
           (sql_mul (quarter_avg rows (f_quarter_key r)) (Some (15/10))))
        then ''Top Performer''
      else if is_true (sql_gt (f_origination_amt r) (quarter_avg rows (f_quarter_key r)))
        then ''Above Average''
      else if is_true (sql_gt (f_origination_amt r)
           (sql_mul (quarter_avg rows (f_quarter_key r)) (Some (5/10))))
        then ''Below Average''
      else ''Underperformer'')"

subsection \<open>Year-over-year growth\<close>

text \<open>
  The window \<open>PARTITION BY geo_key, product_key ORDER BY quarter_key\<close>: the rows of the
  fact table that share the row's geography and product, in ascending order of the
  quarter. \<open>LAG(e, n)\<close> is \<open>e\<close> on the row \<open>n\<close> positions before the current row of
  its partition, and NULL when there is none.
\<close>

definition partition_rows :: "fact_row list \<Rightarrow> fact_row \<Rightarrow> fact_row list" where
  "partition_rows rows r =
     sort_key f_quarter_key
       (filter (\<lambda>x. f_geo_key x = f_geo_key r \<and> f_product_key x = f_product_key r) rows)"

definition row_position :: "fact_row \<Rightarrow> fact_row list \<Rightarrow> nat" where
  "row_position r p = length (takeWhile (\<lambda>x. x \<noteq> r) p)"

definition LAG :: "(fact_row \<Rightarrow> real option) \<Rightarrow> nat \<Rightarrow> fact_row list \<Rightarrow> fact_row \<Rightarrow> real option" where
  "LAG e n rows r =
     (let p = partition_rows rows r; i = row_position r p
      in if n \<le> i \<and> i < length p then e (p ! (i - n)) else None)"

text \<open>
  The \<open>sql\<close> of the two growth measures, at a row. The amounts are \<open>DECIMAL(18,2)\<close>;
  \<open>quot\<close> is the server's quotient.
\<close>

definition originationGrowthRate_sql ::
  "(real \<Rightarrow> real \<Rightarrow> real) \<Rightarrow> fact_row list \<Rightarrow> fact_row \<Rightarrow> real option" where
  "originationGrowthRate_sql quot rows r =
     (if is_true (sql_gt (LAG f_origination_amt 4 rows r) (Some 0))
      then sql_mul
             (sql_quot quot (sql_sub (f_origination_amt r) (LAG f_origination_amt 4 rows r))
                      (LAG f_origination_amt 4 rows r))
             (Some 100)
      else Some 0)"

definition balanceGrowthRate_sql ::
  "(real \<Rightarrow> real \<Rightarrow> real) \<Rightarrow> fact_row list \<Rightarrow> fact_row \<Rightarrow> real option" where
  "balanceGrowthRate_sql quot rows r =
     (if is_true (sql_gt (LAG f_balance_amt 4 rows r) (Some 0))
      then sql_mul
             (sql_quot quot (sql_sub (f_balance_amt r) (LAG f_balance_amt 4 rows r))
                      (LAG f_balance_amt 4 rows r))
             (Some 100)
      else Some 0)"

text \<open>
  Both measures are declared \<open>type: avg\<close>: Cube queries such a measure as
  \<open>avg(sql)\<close> over the rows of the cube. The server accepts no window function inside an
  aggregate and rejects the query (error 3593, with the name of the window function),
  whatever the rows are; \<open>windowed\<close> names the window function of the \<open>sql\<close>, if it
  has one.
\<close>

definition avg_measure ::
  "string option \<Rightarrow> (fact_row \<Rightarrow> real option) \<Rightarrow> fact_row list \<Rightarrow> sql_error + real option" where
  "avg_measure windowed e rows =
     (case windowed of
        Some fn \<Rightarrow> Inl (ER_WINDOW_INVALID_WINDOW_FUNC_USE fn)
      | None \<Rightarrow> Inr (sql_avg (map e rows)))"

definition originationGrowthRate ::
  "(real \<Rightarrow> real \<Rightarrow> real) \<Rightarrow> fact_row list \<Rightarrow> sql_error + real option" where
  "originationGrowthRate quot rows =
     avg_measure (Some ''lag'') (originationGrowthRate_sql quot rows) rows"

definition balanceGrowthRate ::
  "(real \<Rightarrow> real \<Rightarrow> real) \<Rightarrow> fact_row list \<Rightarrow> sql_error + real option" where
  "balanceGrowthRate quot rows =
     avg_measure (Some ''lag'') (balanceGrowthRate_sql quot rows) rows"


subsection \<open>Sample rows\<close>

text \<open>A fact row that carries an origination amount and no other measure.\<close>

definition fact_amt :: "int \<Rightarrow> int \<Rightarrow> int \<Rightarrow> real option \<Rightarrow> fact_row" where
  "fact_amt q g p a =
     \<lparr>f_quarter_key = q, f_geo_key = g, f_product_key = p, f_originations_cnt = None,
      f_origination_amt = a, f_balance_amt = None, f_default_rate = None,
      f_prime_rate = None, f_lending_rate = None\<rparr>"

text \<open>No amount of the quarter is negative.\<close>

definition quarter_amounts_nonneg :: "fact_row list \<Rightarrow> int \<Rightarrow> bool" where
  "quarter_amounts_nonneg rows q =
     list_all (\<lambda>a. 0 \<le> a) (non_null (map f_origination_amt (filter (\<lambda>x. f_quarter_key x = q) rows)))"


section \<open>The warehouse and its views\<close>

text \<open>
  The rollup tables \<open>agg_credit_metrics_yearly\<close> and \<open>agg_credit_metrics_quarterly\<close>.
  The columns of a primary key are \<open>NOT NULL\<close>; every other column is nullable.
\<close>

record agg_yearly_row =
  ay_year :: int
  ay_country :: string
  ay_product_type :: string
  ay_total_originations_cnt :: "int option"
  ay_total_origination_amt :: "real option"
  ay_total_balance_amt :: "real option"
  ay_avg_default_rate :: "real option"
  ay_avg_prime_rate :: "real option"
  ay_avg_lending_rate :: "real option"

record agg_quarterly_row =
  aq_year :: "int option"
  aq_quarter :: "int option"
  aq_quarter_key :: int
  aq_country :: string
  aq_product_type :: string
  aq_total_originations_cnt :: "int option"
  aq_total_origination_amt :: "real option"
  aq_total_balance_amt :: "real option"
  aq_avg_default_rate :: "real option"
  aq_avg_prime_rate :: "real option"
  aq_avg_lending_rate :: "real option"
  aq_min_default_rate :: "real option"
  aq_max_default_rate :: "real option"
  aq_stddev_default_rate :: "real option"

record warehouse =
  fact_credit_metrics_qtr :: "fact_row list"
  dim_date_qtr :: "dim_date_row list"
  dim_geo :: "dim_geo_row list"
  dim_product :: "dim_product_row list"
  agg_credit_metrics_yearly :: "agg_yearly_row list"
  agg_credit_metrics_quarterly :: "agg_quarterly_row list"

text \<open>
  \<open>FROM fact_credit_metrics_qtr f JOIN dim_date_qtr d ON f.quarter_key = d.quarter_key
  JOIN dim_geo g ON f.geo_key = g.geo_key JOIN dim_product p ON f.product_key = p.product_key\<close>
\<close>

definition star_join ::
  "fact_row list \<Rightarrow> dim_date_row list \<Rightarrow> dim_geo_row list \<Rightarrow> dim_product_row list
     \<Rightarrow> (fact_row \<times> dim_date_row \<times> dim_geo_row \<times> dim_product_row) list" where
  "star_join facts dates geos products =
     [(f, d, g, p).
        f \<leftarrow> facts,
        d \<leftarrow> dates, f_quarter_key f = d_quarter_key d,
        g \<leftarrow> geos, f_geo_key f = g_geo_key g,
        p \<leftarrow> products, f_product_key f = p_product_key p]"

definition fact_join :: "warehouse \<Rightarrow> (fact_row \<times> dim_date_row \<times> dim_geo_row \<times> dim_product_row) list" where
  "fact_join w = star_join (fact_credit_metrics_qtr w) (dim_date_qtr w) (dim_geo w) (dim_product w)"

text \<open>\<open>FROM fact_credit_metrics_qtr f JOIN dim_date_qtr d ON f.quarter_key = d.quarter_key\<close>\<close>

definition fact_date_join :: "warehouse \<Rightarrow> (fact_row \<times> dim_date_row) list" where
  "fact_date_join w =
     [(f, d). f \<leftarrow> fact_credit_metrics_qtr w,
              d \<leftarrow> dim_date_qtr w, f_quarter_key f = d_quarter_key d]"

subsection \<open>The view \<open>v_powerbi_optimized\<close>\<close>

text \<open>
  The keys, the dimension attributes, the six fact measures, the three pre-calculated
  measures and the risk category of the view. Its labels and flags (\<open>quarter_label\<close>,
  \<open>fiscal_year\<close>, \<open>fiscal_quarter\<close>, \<open>full_address\<close>, \<open>product_description\<close>,
  \<open>time_sequence\<close>, \<open>days_in_quarter\<close>, \<open>is_recent\<close>, \<open>is_q4\<close>, \<open>is_h1\<close>) are not
  measures and are left out.
\<close>

record powerbi_row =
  v_quarter_key :: int
  v_year :: int
  v_quarter :: int
  v_quarter_start :: int
  v_quarter_end :: int
  v_geo_key :: int
  v_country :: "string option"
  v_state_province :: "string option"
  v_city :: "string option"
  v_product_key :: int
  v_product_code :: "string option"
  v_product_type :: "string option"
  v_segment :: "string option"
  v_originations_cnt :: "int option"
  v_origination_amt :: "real option"
  v_balance_amt :: "real option"
  v_default_rate :: "real option"
  v_prime_rate :: "real option"
  v_lending_rate :: "real option"
  v_avg_origination_per_account :: "real option"
  v_balance_to_origination_ratio :: "real option"
  v_prime_lending_spread :: "real option"
  v_risk_category :: string

definition powerbi_select :: "fact_row \<times> dim_date_row \<times> dim_geo_row \<times> dim_product_row \<Rightarrow> powerbi_row" where
  "powerbi_select = (\<lambda>(f, d, g, p).
     \<lparr>v_quarter_key = d_quarter_key d, v_year = d_year d, v_quarter = d_quarter d,
      v_quarter_start = d_quarter_start d, v_quarter_end = d_quarter_end d,
      v_geo_key = g_geo_key g, v_country = g_country g,
      v_state_province = g_state_province g, v_city = g_city g,
      v_product_key = p_product_key p, v_product_code = p_product_code p,
      v_product_type = p_product_type p, v_segment = p_segment p,
      v_originations_cnt = sql_coalesce (f_originations_cnt f) (Some 0),
      v_origination_amt = sql_coalesce (f_origination_amt f) (Some 0),
      v_balance_amt = sql_coalesce (f_balance_amt f) (Some 0),
      v_default_rate = sql_coalesce (f_default_rate f) (Some 0),
      v_prime_rate = sql_coalesce (f_prime_rate f) (Some 0),
      v_lending_rate = sql_coalesce (f_lending_rate f) (Some 0),
      v_avg_origination_per_account =
        (if is_true (sql_gt (sql_real (f_originations_cnt f)) (Some 0))
         then sql_div (f_origination_amt f) (sql_real (f_originations_cnt f))
         else Some 0),
      v_balance_to_origination_ratio =
        (if is_true (sql_gt (f_origination_amt f) (Some 0))
         then sql_div (f_balance_amt f) (f_origination_amt f)
         else Some 0),
      v_prime_lending_spread = sql_sub (f_prime_rate f) (f_lending_rate f),
      v_risk_category = risk_category (f_default_rate f)\<rparr>)"

definition v_powerbi_optimized :: "warehouse \<Rightarrow> powerbi_row list" where
  "v_powerbi_optimized w = map powerbi_select (fact_join w)"

subsection \<open>The procedure \<open>ValidateOLAPDataQuality\<close>\<close>

text \<open>
  The procedure returns two result sets: three counted checks (a \<open>UNION ALL\<close> of three
  one-row selects) and one freshness row. It holds no statement but \<open>SELECT\<close>, so the
  warehouse comes back as it was. \<open>CURDATE()\<close> is the parameter \<open>curdate\<close>.
  \<open>quarter_key\<close> is a \<open>NOT NULL\<close> column, read here as a nullable value that is never
  NULL.
\<close>

record quality_check =
  Check_Type :: string
  Issue_Count :: nat
  Description :: string

record freshness_check =
  Freshness_Check_Type :: string
  Latest_Data_Date :: "int option"
  Days_Old :: "int option"

definition datediff :: "int option \<Rightarrow> int option \<Rightarrow> int option" where
  "datediff a b = (case a of None \<Rightarrow> None | Some x \<Rightarrow> (case b of None \<Rightarrow> None | Some y \<Rightarrow> Some (x - y)))"

definition ValidateOLAPDataQuality ::
  "int \<Rightarrow> warehouse \<Rightarrow> (quality_check list \<times> freshness_check) \<times> warehouse" where
  "ValidateOLAPDataQuality curdate w =
     (([\<lparr>Check_Type = ''Missing Data Check'',
         Issue_Count = length (filter (\<lambda>f. sql_is_null (Some (f_quarter_key f)))
                                 (fact_credit_metrics_qtr w)),
         Description = ''Rows with NULL quarter_key''\<rparr>,
        \<lparr>Check_Type = ''Data Range Check'',
         Issue_Count = length (filter (\<lambda>f. is_true (sql_or (sql_lt (f_origination_amt f) (Some 0))
                                                              (sql_lt (f_balance_amt f) (Some 0))))
                                 (fact_credit_metrics_qtr w)),
         Description = ''Rows with negative amounts''\<rparr>,
        \<lparr>Check_Type = ''Data Range Check'',
         Issue_Count = length (filter (\<lambda>f. is_true (sql_or (sql_lt (f_default_rate f) (Some 0))
                                                              (sql_gt (f_default_rate f) (Some 1))))
                                 (fact_credit_metrics_qtr w)),
         Description = ''Rows with invalid default rates''\<rparr>],
       \<lparr>Freshness_Check_Type = ''Data Freshness'',
        Latest_Data_Date = sql_max (map (\<lambda>(f, d). Some (d_quarter_end d)) (fact_date_join w)),
        Days_Old = datediff (Some curdate)
                     (sql_max (map (\<lambda>(f, d). Some (d_quarter_end d)) (fact_date_join w)))\<rparr>),
      w)"

text \<open>
  Scenario A of the specification: quarter 2024 Q3, geography US, product CC / CreditCard /
  Retail, and one fact row with 100 originations, amount 500000 and default rate 0.03.
  The other measures are NULL, and both rollup tables are empty.
\<close>

definition scenario_a :: warehouse where
  "scenario_a =
     \<lparr>fact_credit_metrics_qtr =
        [\<lparr>f_quarter_key = 20243, f_geo_key = 1, f_product_key = 1,
          f_originations_cnt = Some 100, f_origination_amt = Some 500000, f_balance_amt = None,
          f_default_rate = Some (3/100), f_prime_rate = None, f_lending_rate = None\<rparr>],
      dim_date_qtr =
        [\<lparr>d_quarter_key = 20243, d_year = 2024, d_quarter = 3,
          d_quarter_start = 19905, d_quarter_end = 19996\<rparr>],
      dim_geo = [\<lparr>g_geo_key = 1, g_country = Some ''US'', g_state_province = None, g_city = None\<rparr>],
      dim_product =
        [\<lparr>p_product_key = 1, p_product_code = Some ''CC'', p_product_type = Some ''CreditCard'',
          p_segment = Some ''Retail''\<rparr>],
      agg_credit_metrics_yearly = [],
      agg_credit_metrics_quarterly = []\<rparr>"

text \<open>A warehouse with no row in any table.\<close>

definition empty_warehouse :: warehouse where
  "empty_warehouse =
     \<lparr>fact_credit_metrics_qtr = [], dim_date_qtr = [], dim_geo = [], dim_product = [],
      agg_credit_metrics_yearly = [], agg_credit_metrics_quarterly = []\<rparr>"

section \<open>The self-heal block of \<open>dim_product\<close>\<close>

text \<open>
  The block reads the live shape of \<open>dim_product\<close> from \<open>INFORMATION_SCHEMA\<close> and
  prepares either an \<open>ALTER TABLE\<close> or the no-op \<open>DO 0\<close>. The table is its columns
  (name, type, nullability), its indexes and its rows; a row holds one cell per column,
  \<open>None\<close> for NULL. The type of the cells and the server's conversion of a stored value to
  \<open>INT\<close> (\<open>to_int\<close>, \<open>None\<close> where the server rejects the value) are parameters. A
  statement that fails stops the script.
\<close>

record column_def =
  COLUMN_NAME :: string
  COLUMN_TYPE :: string
  IS_NULLABLE :: bool

record index_def =
  INDEX_NAME :: string
  NON_UNIQUE :: bool
  INDEX_COLUMNS :: "string list"

record 'v table_shape =
  table_columns :: "column_def list"
  table_indexes :: "index_def list"
  table_rows :: "'v option list list"

datatype heal_action = ADD_COLUMN string | MODIFY_COLUMN string | ADD_UNIQUE_KEY string

text \<open>\<open>SELECT COUNT(*) FROM INFORMATION_SCHEMA.COLUMNS WHERE ... COLUMN_NAME = name\<close>\<close>

definition col_exists :: "string \<Rightarrow> 'v table_shape \<Rightarrow> nat" where
  "col_exists name t = length (filter (\<lambda>c. COLUMN_NAME c = name) (table_columns t))"

text \<open>\<open>... COLUMN_NAME = 'product_number' AND IS_NULLABLE = 'NO'\<close>\<close>

definition has_prodnum :: "'v table_shape \<Rightarrow> nat" where
  "has_prodnum t =
     length (filter (\<lambda>c. COLUMN_NAME c = ''product_number'' \<and> \<not> IS_NULLABLE c) (table_columns t))"

text \<open>\<open>SELECT COUNT(*) FROM information_schema.statistics WHERE ... index_name = 'uq_prod'\<close>:
  one row for each column of the index.\<close>

definition idx_exists :: "string \<Rightarrow> 'v table_shape \<Rightarrow> nat" where
  "idx_exists name t =
     sum_list (map (\<lambda>i. length (INDEX_COLUMNS i)) (filter (\<lambda>i. INDEX_NAME i = name) (table_indexes t)))"

definition column_position :: "string \<Rightarrow> column_def list \<Rightarrow> nat" where
  "column_position name cols = length (takeWhile (\<lambda>c. COLUMN_NAME c \<noteq> name) cols)"

definition cell_at :: "'v option list \<Rightarrow> nat \<Rightarrow> 'v option" where
  "cell_at row i = (if i < length row then row ! i else None)"

text \<open>\<open>ALTER TABLE dim_product ADD COLUMN name VARCHAR(64) NULL\<close>: the new column is
  last, and NULL in every row.\<close>

definition alter_add_column :: "string \<Rightarrow> 'v table_shape \<Rightarrow> 'v table_shape" where
  "alter_add_column name t =
     t\<lparr>table_columns := table_columns t @
          [\<lparr>COLUMN_NAME = name, COLUMN_TYPE = ''VARCHAR(64)'', IS_NULLABLE = True\<rparr>],
       table_rows := map (\<lambda>row. row @ [None]) (table_rows t)\<rparr>"

text \<open>
  \<open>ALTER TABLE dim_product MODIFY product_number INT NULL DEFAULT NULL\<close>: refused when
  the column is part of the primary key, or when a stored value does not convert.
\<close>

definition convert_cell :: "('v \<Rightarrow> 'v option) \<Rightarrow> 'v option \<Rightarrow> 'v option option" where
  "convert_cell to_int c = (case c of None \<Rightarrow> Some None | Some v \<Rightarrow> map_option Some (to_int v))"

definition alter_modify_product_number ::
  "('v \<Rightarrow> 'v option) \<Rightarrow> 'v table_shape \<Rightarrow> sql_error + 'v table_shape" where
  "alter_modify_product_number to_int t =
     (let i = column_position ''product_number'' (table_columns t) in
      if list_ex (\<lambda>x. INDEX_NAME x = ''PRIMARY'' \<and> ''product_number'' \<in> set (INDEX_COLUMNS x))
           (table_indexes t)
        then Inl ER_PRIMARY_CANT_HAVE_NULL
      else if list_ex (\<lambda>row. convert_cell to_int (cell_at row i) = None) (table_rows t)
        then Inl ER_TRUNCATED_WRONG_VALUE
      else Inr (t\<lparr>table_columns :=
                     map (\<lambda>c. if COLUMN_NAME c = ''product_number''
                               then c\<lparr>COLUMN_TYPE := ''INT'', IS_NULLABLE := True\<rparr> else c)
                         (table_columns t),
                   table_rows :=
                     map (\<lambda>row. if i < length row
                                 then row[i := the (convert_cell to_int (cell_at row i))] else row)
                         (table_rows t)\<rparr>))"

text \<open>
  \<open>ALTER TABLE dim_product ADD UNIQUE KEY uq_prod (product_code, product_type, segment)\<close>:
  refused when a key column is missing, or when two rows hold the same key with no NULL
  in it.
\<close>

definition row_key :: "string list \<Rightarrow> 'v table_shape \<Rightarrow> 'v option list \<Rightarrow> 'v option list" where
  "row_key names t row = map (\<lambda>n. cell_at row (column_position n (table_columns t))) names"

definition alter_add_unique_key ::
  "string \<Rightarrow> string list \<Rightarrow> 'v table_shape \<Rightarrow> sql_error + 'v table_shape" where
  "alter_add_unique_key name names t =
     (if list_ex (\<lambda>n. col_exists n t = 0) names
        then Inl (ER_KEY_COLUMN_DOES_NOT_EXIST name)
      else if \<not> distinct (filter (\<lambda>k. None \<notin> set k) (map (row_key names t) (table_rows t)))
        then Inl (ER_DUP_ENTRY name)
      else Inr (t\<lparr>table_indexes := table_indexes t @
                     [\<lparr>INDEX_NAME = name, NON_UNIQUE = False, INDEX_COLUMNS = names\<rparr>]\<rparr>))"

text \<open>The five conditional statements, each with the actions it took.\<close>

definition heal_column :: "string \<Rightarrow> 'v table_shape \<Rightarrow> heal_action list \<times> 'v table_shape" where
  "heal_column name t =
     (if col_exists name t = 0 then ([ADD_COLUMN name], alter_add_column name t) else ([], t))"

definition heal_product_number ::
  "('v \<Rightarrow> 'v option) \<Rightarrow> 'v table_shape \<Rightarrow> sql_error + heal_action list \<times> 'v table_shape" where
  "heal_product_number to_int t =
     (if has_prodnum t = 1
      then (case alter_modify_product_number to_int t of
              Inl e \<Rightarrow> Inl e | Inr t' \<Rightarrow> Inr ([MODIFY_COLUMN ''product_number''], t'))
      else Inr ([], t))"

definition heal_unique_key :: "'v table_shape \<Rightarrow> sql_error + heal_action list \<times> 'v table_shape" where
  "heal_unique_key t =
     (if idx_exists ''uq_prod'' t = 0
      then (case alter_add_unique_key ''uq_prod'' [''product_code'', ''product_type'', ''segment''] t of
              Inl e \<Rightarrow> Inl e | Inr t' \<Rightarrow> Inr ([ADD_UNIQUE_KEY ''uq_prod''], t'))
      else Inr ([], t))"

definition dim_product_self_heal ::
  "('v \<Rightarrow> 'v option) \<Rightarrow> 'v table_shape \<Rightarrow> sql_error + heal_action list \<times> 'v table_shape" where
  "dim_product_self_heal to_int t0 =
     (case heal_column ''product_code'' t0 of (a1, t1) \<Rightarrow>
      case heal_column ''product_type'' t1 of (a2, t2) \<Rightarrow>
      case heal_column ''segment'' t2 of (a3, t3) \<Rightarrow>
      case heal_product_number to_int t3 of Inl e \<Rightarrow> Inl e | Inr (a4, t4) \<Rightarrow>
      case heal_unique_key t4 of Inl e \<Rightarrow> Inl e | Inr (a5, t5) \<Rightarrow>
        Inr (a1 @ a2 @ a3 @ a4 @ a5, t5))"

text \<open>
  A legacy product table: \<open>product_number\<close> is \<open>NOT NULL\<close>, the three columns of the
  loader and the unique key are missing.
\<close>

definition legacy_dim_product :: "int table_shape" where
  "legacy_dim_product =
     \<lparr>table_columns =
        [\<lparr>COLUMN_NAME = ''product_key'', COLUMN_TYPE = ''INT'', IS_NULLABLE = False\<rparr>,
         \<lparr>COLUMN_NAME = ''product_number'', COLUMN_TYPE = ''INT'', IS_NULLABLE = False\<rparr>],
      table_indexes =
        [\<lparr>INDEX_NAME = ''PRIMARY'', NON_UNIQUE = False, INDEX_COLUMNS = [''product_key'']\<rparr>],
      table_rows = [[Some 1, Some 1110], [Some 2, Some 2110]]\<rparr>"

text \<open>The same table after one run of the block.\<close>

definition healed_dim_product :: "int table_shape" where
  "healed_dim_product =
     \<lparr>table_columns =
        [\<lparr>COLUMN_NAME = ''product_key'', COLUMN_TYPE = ''INT'', IS_NULLABLE = False\<rparr>,
         \<lparr>COLUMN_NAME = ''product_number'', COLUMN_TYPE = ''INT'', IS_NULLABLE = True\<rparr>,
         \<lparr>COLUMN_NAME = ''product_code'', COLUMN_TYPE = ''VARCHAR(64)'', IS_NULLABLE = True\<rparr>,
         \<lparr>COLUMN_NAME = ''product_type'', COLUMN_TYPE = ''VARCHAR(64)'', IS_NULLABLE = True\<rparr>,
         \<lparr>COLUMN_NAME = ''segment'', COLUMN_TYPE = ''VARCHAR(64)'', IS_NULLABLE = True\<rparr>],
      table_indexes =
        [\<lparr>INDEX_NAME = ''PRIMARY'', NON_UNIQUE = False, INDEX_COLUMNS = [''product_key'']\<rparr>,
         \<lparr>INDEX_NAME = ''uq_prod'', NON_UNIQUE = False,
           INDEX_COLUMNS = [''product_code'', ''product_type'', ''segment'']\<rparr>],
      table_rows = [[Some 1, Some 1110, None, None, None], [Some 2, Some 2110, None, None, None]]\<rparr>"

section \<open>The rollup refresh\<close>

subsection \<open>Storing a value in a column\<close>

text \<open>
  The server runs in its default strict mode: a NULL for a \<open>NOT NULL\<close> column and a
  value outside the range of the column fail the \<open>INSERT\<close>. A value with more decimals
  than a \<open>DECIMAL(m, d)\<close> column holds is rounded to \<open>d\<close> decimals, half away from zero
  (\<open>round_dec\<close>).
\<close>

definition store_decimal :: "nat \<Rightarrow> nat \<Rightarrow> string \<Rightarrow> real option \<Rightarrow> sql_error + real option" where
  "store_decimal m d col v =
     (case v of None \<Rightarrow> Inr None
      | Some x \<Rightarrow> if \<bar>round_dec d x\<bar> < 10 ^ (m - d) then Inr (Some (round_dec d x))
                  else Inl (ER_WARN_DATA_OUT_OF_RANGE col))"

definition store_bigint :: "string \<Rightarrow> int option \<Rightarrow> sql_error + int option" where
  "store_bigint col v =
     (case v of None \<Rightarrow> Inr None
      | Some n \<Rightarrow> if - (2 ^ 63) \<le> n \<and> n < 2 ^ 63 then Inr (Some n)
                  else Inl (ER_WARN_DATA_OUT_OF_RANGE col))"

definition store_not_null :: "string \<Rightarrow> 'a option \<Rightarrow> sql_error + 'a" where
  "store_not_null col v = (case v of None \<Rightarrow> Inl (ER_BAD_NULL_ERROR col) | Some x \<Rightarrow> Inr x)"

definition sql_bind :: "sql_error + 'a \<Rightarrow> ('a \<Rightarrow> sql_error + 'b) \<Rightarrow> sql_error + 'b" where
  "sql_bind m f = (case m of Inl e \<Rightarrow> Inl e | Inr x \<Rightarrow> f x)"

fun store_rows :: "('a \<Rightarrow> sql_error + 'b) \<Rightarrow> 'a list \<Rightarrow> sql_error + 'b list" where
  "store_rows st [] = Inr []"
| "store_rows st (r # rs) =
     sql_bind (st r) (\<lambda>x. sql_bind (store_rows st rs) (\<lambda>xs. Inr (x # xs)))"

subsection \<open>Grouping under the collation of the database\<close>

text \<open>
  The database is created with \<open>COLLATE utf8mb4_general_ci\<close>, which every \<open>VARCHAR\<close>
  column inherits: the server compares, groups and keys strings by their weights under
  the collation, not by their bytes. The weight of a string, \<open>ck\<close>, is a parameter of the
  model; NULLs form one group.

  \<open>GROUP BY\<close> gives one row for each distinct key, and a grouped column shows the value
  of one join row of the group; the model takes the first. \<open>first_rows key seen rows\<close>
  keeps the first row of each key not yet seen.
\<close>

fun first_rows :: "('a \<Rightarrow> 'k) \<Rightarrow> 'k list \<Rightarrow> 'a list \<Rightarrow> 'a list" where
  "first_rows key seen [] = []"
| "first_rows key seen (x # xs) =
     (if key x \<in> set seen then first_rows key seen xs
      else x # first_rows key (key x # seen) xs)"

text \<open>
  A weight for ASCII strings that ignores the case of letters and trailing spaces, as
  \<open>utf8mb4_general_ci\<close> does on them.
\<close>

definition ascii_upper :: "char \<Rightarrow> char" where
  "ascii_upper c =
     (case map_of (zip ''abcdefghijklmnopqrstuvwxyz'' ''ABCDEFGHIJKLMNOPQRSTUVWXYZ'') c of
        None \<Rightarrow> c | Some u \<Rightarrow> u)"

definition ascii_ci :: "string \<Rightarrow> string" where
  "ascii_ci s = map ascii_upper (rev (dropWhile (\<lambda>c. c = CHR '' '') (rev s)))"

subsection \<open>The yearly rollup\<close>

text \<open>
  \<open>SELECT d.year, g.country, p.product_type, SUM(...), ..., AVG(...) ... GROUP BY d.year,
  g.country, p.product_type\<close>: one row for each distinct key of the join, aggregated
  over the join rows of that key.
\<close>

record yearly_select_row =
  ys_year :: int
  ys_country :: "string option"
  ys_product_type :: "string option"
  ys_total_originations_cnt :: "int option"
  ys_total_origination_amt :: "real option"
  ys_total_balance_amt :: "real option"
  ys_avg_default_rate :: "real option"
  ys_avg_prime_rate :: "real option"
  ys_avg_lending_rate :: "real option"

definition yearly_key ::
  "(string \<Rightarrow> string) \<Rightarrow> fact_row \<times> dim_date_row \<times> dim_geo_row \<times> dim_product_row
     \<Rightarrow> int \<times> string option \<times> string option" where
  "yearly_key ck = (\<lambda>(f, d, g, p). (d_year d, map_option ck (g_country g), map_option ck (p_product_type p)))"

definition yearly_group ::
  "(string \<Rightarrow> string) \<Rightarrow> warehouse \<Rightarrow> int \<times> string option \<times> string option \<Rightarrow> fact_row list" where
  "yearly_group ck w k = map fst (filter (\<lambda>j. yearly_key ck j = k) (fact_join w))"

definition yearly_aggregate ::
  "(string \<Rightarrow> string) \<Rightarrow> warehouse \<Rightarrow> fact_row \<times> dim_date_row \<times> dim_geo_row \<times> dim_product_row
     \<Rightarrow> yearly_select_row" where
  "yearly_aggregate ck w = (\<lambda>(f, d, g, p).
     \<lparr>ys_year = d_year d, ys_country = g_country g, ys_product_type = p_product_type p,
      ys_total_originations_cnt =
        sql_sum_int (map f_originations_cnt (yearly_group ck w (yearly_key ck (f, d, g, p)))),
      ys_total_origination_amt =
        sql_sum (map f_origination_amt (yearly_group ck w (yearly_key ck (f, d, g, p)))),
      ys_total_balance_amt =
        sql_sum (map f_balance_amt (yearly_group ck w (yearly_key ck (f, d, g, p)))),
      ys_avg_default_rate =
        sql_avg (map f_default_rate (yearly_group ck w (yearly_key ck (f, d, g, p)))),
      ys_avg_prime_rate =
        sql_avg (map f_prime_rate (yearly_group ck w (yearly_key ck (f, d, g, p)))),
      ys_avg_lending_rate =
        sql_avg (map f_lending_rate (yearly_group ck w (yearly_key ck (f, d, g, p))))\<rparr>)"

definition select_yearly :: "(string \<Rightarrow> string) \<Rightarrow> warehouse \<Rightarrow> yearly_select_row list" where
  "select_yearly ck w = map (yearly_aggregate ck w) (first_rows (yearly_key ck) [] (fact_join w))"

text \<open>One selected row into \<open>agg_credit_metrics_yearly\<close>, column by column.\<close>

definition store_yearly_row :: "yearly_select_row \<Rightarrow> sql_error + agg_yearly_row" where
  "store_yearly_row r =
     sql_bind (store_not_null ''country'' (ys_country r)) (\<lambda>country.
     sql_bind (store_not_null ''product_type'' (ys_product_type r)) (\<lambda>product_type.
     sql_bind (store_bigint ''total_originations_cnt'' (ys_total_originations_cnt r)) (\<lambda>cnt.
     sql_bind (store_decimal 18 2 ''total_origination_amt'' (ys_total_origination_amt r)) (\<lambda>orig.
     sql_bind (store_decimal 18 2 ''total_balance_amt'' (ys_total_balance_amt r)) (\<lambda>bal.
     sql_bind (store_decimal 9 4 ''avg_default_rate'' (ys_avg_default_rate r)) (\<lambda>dr.
     sql_bind (store_decimal 9 4 ''avg_prime_rate'' (ys_avg_prime_rate r)) (\<lambda>pr.
     sql_bind (store_decimal 9 4 ''avg_lending_rate'' (ys_avg_lending_rate r)) (\<lambda>lr.
       Inr \<lparr>ay_year = ys_year r, ay_country = country, ay_product_type = product_type,
            ay_total_originations_cnt = cnt, ay_total_origination_amt = orig,
            ay_total_balance_amt = bal, ay_avg_default_rate = dr, ay_avg_prime_rate = pr,
            ay_avg_lending_rate = lr\<rparr>))))))))"

text \<open>The primary key \<open>(year, country, product_type)\<close> of the table, under the collation.\<close>

definition ay_key :: "(string \<Rightarrow> string) \<Rightarrow> agg_yearly_row \<Rightarrow> int \<times> string \<times> string" where
  "ay_key ck r = (ay_year r, ck (ay_country r), ck (ay_product_type r))"

text \<open>\<open>INSERT INTO agg_credit_metrics_yearly SELECT ...\<close>\<close>

definition insert_agg_credit_metrics_yearly ::
  "(string \<Rightarrow> string) \<Rightarrow> warehouse \<Rightarrow> sql_error + warehouse" where
  "insert_agg_credit_metrics_yearly ck w =
     sql_bind (store_rows store_yearly_row (select_yearly ck w)) (\<lambda>rows.
       if distinct (map (ay_key ck) (agg_credit_metrics_yearly w @ rows))
       then Inr (w\<lparr>agg_credit_metrics_yearly := agg_credit_metrics_yearly w @ rows\<rparr>)
       else Inl (ER_DUP_ENTRY ''PRIMARY''))"

definition truncate_agg_credit_metrics_yearly :: "warehouse \<Rightarrow> warehouse" where
  "truncate_agg_credit_metrics_yearly w = w\<lparr>agg_credit_metrics_yearly := []\<rparr>"

subsection \<open>The quarterly rollup\<close>

record quarterly_select_row =
  qs_year :: int
  qs_quarter :: int
  qs_quarter_key :: int
  qs_country :: "string option"
  qs_product_type :: "string option"
  qs_total_originations_cnt :: "int option"
  qs_total_origination_amt :: "real option"
  qs_total_balance_amt :: "real option"
  qs_avg_default_rate :: "real option"
  qs_avg_prime_rate :: "real option"
  qs_avg_lending_rate :: "real option"
  qs_min_default_rate :: "real option"
  qs_max_default_rate :: "real option"
  qs_stddev_default_rate :: "real option"

definition quarterly_key ::
  "(string \<Rightarrow> string) \<Rightarrow> fact_row \<times> dim_date_row \<times> dim_geo_row \<times> dim_product_row
     \<Rightarrow> int \<times> int \<times> int \<times> string option \<times> string option" where
  "quarterly_key ck = (\<lambda>(f, d, g, p).
     (d_year d, d_quarter d, d_quarter_key d, map_option ck (g_country g),
      map_option ck (p_product_type p)))"

definition quarterly_group ::
  "(string \<Rightarrow> string) \<Rightarrow> warehouse \<Rightarrow> int \<times> int \<times> int \<times> string option \<times> string option
     \<Rightarrow> fact_row list" where
  "quarterly_group ck w k = map fst (filter (\<lambda>j. quarterly_key ck j = k) (fact_join w))"

definition quarterly_aggregate ::
  "(string \<Rightarrow> string) \<Rightarrow> warehouse \<Rightarrow> fact_row \<times> dim_date_row \<times> dim_geo_row \<times> dim_product_row
     \<Rightarrow> quarterly_select_row" where
  "quarterly_aggregate ck w = (\<lambda>(f, d, g, p).
     \<lparr>qs_year = d_year d, qs_quarter = d_quarter d, qs_quarter_key = d_quarter_key d,
      qs_country = g_country g, qs_product_type = p_product_type p,
      qs_total_originations_cnt =
        sql_sum_int (map f_originations_cnt (quarterly_group ck w (quarterly_key ck (f, d, g, p)))),
      qs_total_origination_amt =
        sql_sum (map f_origination_amt (quarterly_group ck w (quarterly_key ck (f, d, g, p)))),
      qs_total_balance_amt =
        sql_sum (map f_balance_amt (quarterly_group ck w (quarterly_key ck (f, d, g, p)))),
      qs_avg_default_rate =
        sql_avg (map f_default_rate (quarterly_group ck w (quarterly_key ck (f, d, g, p)))),
      qs_avg_prime_rate =
        sql_avg (map f_prime_rate (quarterly_group ck w (quarterly_key ck (f, d, g, p)))),
      qs_avg_lending_rate =
        sql_avg (map f_lending_rate (quarterly_group ck w (quarterly_key ck (f, d, g, p)))),
      qs_min_default_rate =
        sql_min (map f_default_rate (quarterly_group ck w (quarterly_key ck (f, d, g, p)))),
      qs_max_default_rate =
        sql_max (map f_default_rate (quarterly_group ck w (quarterly_key ck (f, d, g, p)))),
      qs_stddev_default_rate =
        sql_stddev (map f_default_rate (quarterly_group ck w (quarterly_key ck (f, d, g, p))))\<rparr>)"

definition select_quarterly :: "(string \<Rightarrow> string) \<Rightarrow> warehouse \<Rightarrow> quarterly_select_row list" where
  "select_quarterly ck w =
     map (quarterly_aggregate ck w) (first_rows (quarterly_key ck) [] (fact_join w))"

definition store_quarterly_row :: "quarterly_select_row \<Rightarrow> sql_error + agg_quarterly_row" where
  "store_quarterly_row r =
     sql_bind (store_not_null ''country'' (qs_country r)) (\<lambda>country.
     sql_bind (store_not_null ''product_type'' (qs_product_type r)) (\<lambda>product_type.
     sql_bind (store_bigint ''total_originations_cnt'' (qs_total_originations_cnt r)) (\<lambda>cnt.
     sql_bind (store_decimal 18 2 ''total_origination_amt'' (qs_total_origination_amt r)) (\<lambda>orig.
     sql_bind (store_decimal 18 2 ''total_balance_amt'' (qs_total_balance_amt r)) (\<lambda>bal.
     sql_bind (store_decimal 9 4 ''avg_default_rate'' (qs_avg_default_rate r)) (\<lambda>dr.
     sql_bind (store_decimal 9 4 ''avg_prime_rate'' (qs_avg_prime_rate r)) (\<lambda>pr.
     sql_bind (store_decimal 9 4 ''avg_lending_rate'' (qs_avg_lending_rate r)) (\<lambda>lr.
     sql_bind (store_decimal 9 4 ''min_default_rate'' (qs_min_default_rate r)) (\<lambda>mn.
     sql_bind (store_decimal 9 4 ''max_default_rate'' (qs_max_default_rate r)) (\<lambda>mx.
     sql_bind (store_decimal 9 4 ''stddev_default_rate'' (qs_stddev_default_rate r)) (\<lambda>sd.
       Inr \<lparr>aq_year = Some (qs_year r), aq_quarter = Some (qs_quarter r),
            aq_quarter_key = qs_quarter_key r, aq_country = country,
            aq_product_type = product_type, aq_total_originations_cnt = cnt,
            aq_total_origination_amt = orig, aq_total_balance_amt = bal,
            aq_avg_default_rate = dr, aq_avg_prime_rate = pr, aq_avg_lending_rate = lr,
            aq_min_default_rate = mn, aq_max_default_rate = mx,
            aq_stddev_default_rate = sd\<rparr>)))))))))))"

text \<open>The primary key \<open>(quarter_key, country, product_type)\<close>, under the collation.\<close>

definition aq_key :: "(string \<Rightarrow> string) \<Rightarrow> agg_quarterly_row \<Rightarrow> int \<times> string \<times> string" where
  "aq_key ck r = (aq_quarter_key r, ck (aq_country r), ck (aq_product_type r))"

definition insert_agg_credit_metrics_quarterly ::
  "(string \<Rightarrow> string) \<Rightarrow> warehouse \<Rightarrow> sql_error + warehouse" where
  "insert_agg_credit_metrics_quarterly ck w =
     sql_bind (store_rows store_quarterly_row (select_quarterly ck w)) (\<lambda>rows.
       if distinct (map (aq_key ck) (agg_credit_metrics_quarterly w @ rows))
       then Inr (w\<lparr>agg_credit_metrics_quarterly := agg_credit_metrics_quarterly w @ rows\<rparr>)
       else Inl (ER_DUP_ENTRY ''PRIMARY''))"

definition truncate_agg_credit_metrics_quarterly :: "warehouse \<Rightarrow> warehouse" where
  "truncate_agg_credit_metrics_quarterly w = w\<lparr>agg_credit_metrics_quarterly := []\<rparr>"

subsection \<open>Statements, transactions and the two procedures\<close>

text \<open>
  A session holds the warehouse as committed, which is what any other connection reads,
  the warehouse as the session sees it, and whether a transaction is open. The server
  settings are the defaults: \<open>autocommit\<close> is on, so a statement outside a transaction
  commits as it ends. \<open>START TRANSACTION\<close> and \<open>TRUNCATE TABLE\<close> commit the open
  transaction first; \<open>TRUNCATE TABLE\<close> is a DDL statement that commits on its own and
  leaves no transaction open. A statement that fails changes nothing.
\<close>

record session =
  committed :: warehouse
  current :: warehouse
  in_transaction :: bool

type_synonym statement = "session \<Rightarrow> sql_error + session"

definition START_TRANSACTION :: statement where
  "START_TRANSACTION s = Inr \<lparr>committed = current s, current = current s, in_transaction = True\<rparr>"

definition COMMIT :: statement where
  "COMMIT s = Inr \<lparr>committed = current s, current = current s, in_transaction = False\<rparr>"

definition ROLLBACK :: "session \<Rightarrow> session" where
  "ROLLBACK s = \<lparr>committed = committed s, current = committed s, in_transaction = False\<rparr>"

definition TRUNCATE_TABLE :: "(warehouse \<Rightarrow> warehouse) \<Rightarrow> statement" where
  "TRUNCATE_TABLE emptied s =
     Inr \<lparr>committed = emptied (current s), current = emptied (current s), in_transaction = False\<rparr>"

definition INSERT_SELECT :: "(warehouse \<Rightarrow> sql_error + warehouse) \<Rightarrow> statement" where
  "INSERT_SELECT ins s =
     (case ins (current s) of
        Inl e \<Rightarrow> Inl e
      | Inr w \<Rightarrow> Inr (if in_transaction s then s\<lparr>current := w\<rparr>
                       else \<lparr>committed = w, current = w, in_transaction = False\<rparr>))"

text \<open>
  Running statements in order: the sessions after each statement that succeeded, and the
  error of the statement that failed, if one did.
\<close>

fun run :: "statement list \<Rightarrow> session \<Rightarrow> session list \<times> sql_error option" where
  "run [] s = ([], None)"
| "run (st # sts) s =
     (case st s of
        Inl e \<Rightarrow> ([], Some e)
      | Inr s' \<Rightarrow> (case run sts s' of (trace, r) \<Rightarrow> (s' # trace, r)))"

definition RefreshOLAPAggregations_body :: "(string \<Rightarrow> string) \<Rightarrow> statement list" where
  "RefreshOLAPAggregations_body ck =
     [TRUNCATE_TABLE truncate_agg_credit_metrics_yearly,
      INSERT_SELECT (insert_agg_credit_metrics_yearly ck)]"

definition RefreshOLAPAggregations ::
  "(string \<Rightarrow> string) \<Rightarrow> session \<Rightarrow> session list \<times> sql_error option" where
  "RefreshOLAPAggregations ck s = run (RefreshOLAPAggregations_body ck) s"

text \<open>
  \<open>RefreshAllAggregations\<close> declares an exit handler for \<open>SQLEXCEPTION\<close> that rolls
  back and resignals; the call of \<open>RefreshOLAPAggregations\<close> runs that procedure's
  statements in the caller's session.
\<close>

definition RefreshAllAggregations ::
  "(string \<Rightarrow> string) \<Rightarrow> session \<Rightarrow> session list \<times> sql_error option" where
  "RefreshAllAggregations ck s =
     (case run (START_TRANSACTION # RefreshOLAPAggregations_body ck @
                [TRUNCATE_TABLE truncate_agg_credit_metrics_quarterly,
                 INSERT_SELECT (insert_agg_credit_metrics_quarterly ck),
                 COMMIT]) s of
        (trace, None) \<Rightarrow> (trace, None)
      | (trace, Some e) \<Rightarrow> (trace @ [ROLLBACK (last (s # trace))], Some e))"

text \<open>The session a run ends in.\<close>

definition final :: "session \<Rightarrow> session list \<times> sql_error option \<Rightarrow> session" where
  "final s r = last (s # fst r)"

text \<open>A session with no open transaction on a warehouse.\<close>

definition idle :: "warehouse \<Rightarrow> session" where
  "idle w = \<lparr>committed = w, current = w, in_transaction = False\<rparr>"

text \<open>The rows that a refresh of Scenario A stores in the two rollup tables.\<close>

definition scenario_a_yearly :: agg_yearly_row where
  "scenario_a_yearly =
     \<lparr>ay_year = 2024, ay_country = ''US'', ay_product_type = ''CreditCard'',
      ay_total_originations_cnt = Some 100, ay_total_origination_amt = Some 500000,
      ay_total_balance_amt = None, ay_avg_default_rate = Some (3/100),
      ay_avg_prime_rate = None, ay_avg_lending_rate = None\<rparr>"

definition scenario_a_quarterly :: agg_quarterly_row where
  "scenario_a_quarterly =
     \<lparr>aq_year = Some 2024, aq_quarter = Some 3, aq_quarter_key = 20243, aq_country = ''US'',
      aq_product_type = ''CreditCard'', aq_total_originations_cnt = Some 100,
      aq_total_origination_amt = Some 500000, aq_total_balance_amt = None,
      aq_avg_default_rate = Some (3/100), aq_avg_prime_rate = None, aq_avg_lending_rate = None,
      aq_min_default_rate = Some (3/100), aq_max_default_rate = Some (3/100),
      aq_stddev_default_rate = Some 0\<rparr>"

text \<open>Scenario A with both rollups already refreshed.\<close>

definition scenario_a_refreshed :: warehouse where
  "scenario_a_refreshed =
     scenario_a\<lparr>agg_credit_metrics_yearly := [scenario_a_yearly],
                 agg_credit_metrics_quarterly := [scenario_a_quarterly]\<rparr>"

text \<open>The same warehouse after its geography row has lost its country (the column is
  nullable in \<open>dim_geo\<close>).\<close>

definition scenario_a_no_country :: warehouse where
  "scenario_a_no_country =
     scenario_a_refreshed\<lparr>dim_geo :=
       [\<lparr>g_geo_key = 1, g_country = None, g_state_province = None, g_city = None\<rparr>]\<rparr>"

text \<open>
  Two quarters of one year, country and product type, with default rates 0.0001 and
  0.0002.
\<close>

definition two_quarters :: warehouse where
  "two_quarters =
     \<lparr>fact_credit_metrics_qtr =
        [\<lparr>f_quarter_key = 20243, f_geo_key = 1, f_product_key = 1,
          f_originations_cnt = Some 100, f_origination_amt = Some 500000, f_balance_amt = None,
          f_default_rate = Some (1/10000), f_prime_rate = None, f_lending_rate = None\<rparr>,
         \<lparr>f_quarter_key = 20244, f_geo_key = 1, f_product_key = 1,
          f_originations_cnt = Some 100, f_origination_amt = Some 500000, f_balance_amt = None,
          f_default_rate = Some (2/10000), f_prime_rate = None, f_lending_rate = None\<rparr>],
      dim_date_qtr =
        [\<lparr>d_quarter_key = 20243, d_year = 2024, d_quarter = 3,
          d_quarter_start = 19905, d_quarter_end = 19996\<rparr>,
         \<lparr>d_quarter_key = 20244, d_year = 2024, d_quarter = 4,
          d_quarter_start = 19997, d_quarter_end = 20088\<rparr>],
      dim_geo = [\<lparr>g_geo_key = 1, g_country = Some ''US'', g_state_province = None, g_city = None\<rparr>],
      dim_product =
        [\<lparr>p_product_key = 1, p_product_code = Some ''CC'', p_product_type = Some ''CreditCard'',
          p_segment = Some ''Retail''\<rparr>],
      agg_credit_metrics_yearly = [],
      agg_credit_metrics_quarterly = []\<rparr>"

text \<open>
  The same two quarters, the second one under a geography row that spells the country in
  lower case.
\<close>

definition two_spellings :: warehouse where
  "two_spellings =
     \<lparr>fact_credit_metrics_qtr =
        [\<lparr>f_quarter_key = 20243, f_geo_key = 1, f_product_key = 1,
          f_originations_cnt = Some 100, f_origination_amt = Some 500000, f_balance_amt = None,
          f_default_rate = Some (1/10000), f_prime_rate = None, f_lending_rate = None\<rparr>,
         \<lparr>f_quarter_key = 20244, f_geo_key = 2, f_product_key = 1,
          f_originations_cnt = Some 100, f_origination_amt = Some 500000, f_balance_amt = None,
          f_default_rate = Some (2/10000), f_prime_rate = None, f_lending_rate = None\<rparr>],
      dim_date_qtr =
        [\<lparr>d_quarter_key = 20243, d_year = 2024, d_quarter = 3,
          d_quarter_start = 19905, d_quarter_end = 19996\<rparr>,
         \<lparr>d_quarter_key = 20244, d_year = 2024, d_quarter = 4,
          d_quarter_start = 19997, d_quarter_end = 20088\<rparr>],
      dim_geo =
        [\<lparr>g_geo_key = 1, g_country = Some ''US'', g_state_province = Some ''NY'', g_city = None\<rparr>,
         \<lparr>g_geo_key = 2, g_country = Some ''us'', g_state_province = Some ''CA'', g_city = None\<rparr>],
      dim_product =
        [\<lparr>p_product_key = 1, p_product_code = Some ''CC'', p_product_type = Some ''CreditCard'',
          p_segment = Some ''Retail''\<rparr>],
      agg_credit_metrics_yearly = [],
      agg_credit_metrics_quarterly = []\<rparr>"

text \<open>The row that a refresh stores in the yearly rollup for either of them.\<close>

definition two_quarters_yearly :: agg_yearly_row where
  "two_quarters_yearly =
     \<lparr>ay_year = 2024, ay_country = ''US'', ay_product_type = ''CreditCard'',
      ay_total_originations_cnt = Some 200, ay_total_origination_amt = Some 1000000,
      ay_total_balance_amt = None, ay_avg_default_rate = Some (2/10000),
      ay_avg_prime_rate = None, ay_avg_lending_rate = None\<rparr>"

section \<open>Properties of the derived measures\<close>

lemma is_true_simps:
  "is_true (sql_le (Some x) (Some y)) = (x \<le> y)"
  "is_true (sql_lt (Some x) (Some y)) = (x < y)"
  "is_true (sql_gt (Some x) (Some y)) = (y < x)"
  "is_true (sql_ge (Some x) (Some y)) = (y \<le> x)"
  "is_true (sql_between (Some x) (Some lo) (Some hi)) = (lo \<le> x \<and> x \<le> hi)"
  by (auto simp: is_true_def sql_le_def sql_lt_def sql_gt_def sql_ge_def sql_between_def sql_and_def)

lemma is_true_null:
  "is_true (sql_le None b) = False"
  "is_true (sql_lt None b) = False"
  "is_true (sql_gt None b) = False"
  "is_true (sql_gt a None) = False"
  "is_true (sql_between None lo hi) = False"
  by (auto simp: is_true_def sql_le_def sql_lt_def sql_gt_def sql_ge_def sql_between_def sql_and_def
           split: option.splits)

text \<open>
  C5. For a non-NULL default rate \<open>r\<close> the health score is 100 up to 0.02, then
  \<open>80 - (r - 0.02) * 1000\<close> up to 0.05, then \<open>50 - (r - 0.05) * 1000\<close> up to 0.10, and 0
  above; so 0.02 gives 100, 0.035 gives 65 and 0.05 gives 50.
\<close>

theorem portfolioHealthScore_piecewise:
  "portfolioHealthScore (Some r) =
     Some (if r \<le> 2/100 then 100
           else if 2/100 < r \<and> r \<le> 5/100 then 80 - (r - 2/100) * 1000
           else if 5/100 < r \<and> r \<le> 10/100 then 50 - (r - 5/100) * 1000
           else 0)
   \<and> portfolioHealthScore (Some (2/100)) = Some 100
   \<and> portfolioHealthScore (Some (35/1000)) = Some 65
   \<and> portfolioHealthScore (Some (5/100)) = Some 50"
  by (simp add: portfolioHealthScore_def is_true_simps sql_sub_def sql_mul_def)

subsection \<open>Risk buckets\<close>

lemma riskCategoryDetailed_refines_riskCategory:
  "coarse_bucket (riskCategoryDetailed r) = riskCategory r"
proof (cases r)
  case None
  then show ?thesis
    by (simp add: riskCategoryDetailed_def riskCategory_def coarse_bucket_def is_true_null)
next
  case (Some x)
  then show ?thesis
    by (simp add: riskCategoryDetailed_def riskCategory_def coarse_bucket_def is_true_simps)
qed

lemma six_percent_is_high_risk:
  "riskCategory (Some (6/100)) = ''High Risk''
   \<and> riskCategoryDetailed (Some (6/100)) = ''High Risk''
   \<and> risk_category (Some (6/100)) = ''High Risk''"
  by (simp add: riskCategory_def riskCategoryDetailed_def risk_category_def is_true_simps)

lemma risk_category_buckets:
  "risk_category None = ''Unknown''"
  "risk_category (Some r) =
     (if 5/100 < r then ''High Risk'' else if 2/100 < r then ''Medium Risk''
      else if 0 < r then ''Low Risk'' else ''Unknown'')"
  by (simp_all add: risk_category_def is_true_simps is_true_null)

lemma riskCategory_buckets:
  "riskCategory None = ''Unknown''"
  "riskCategory (Some r) =
     (if 5/100 < r then ''High Risk'' else if 2/100 \<le> r then ''Medium Risk'' else ''Low Risk'')"
  by (auto simp: riskCategory_def is_true_simps is_true_null)

text \<open>
  C6. The claim puts a default rate of exactly 0.02 in the Low bucket and a rate of 0 or
  below in Unknown, as the column \<open>risk_category\<close> of the two views does. The cube's
  \<open>riskCategory\<close> answers Medium Risk at 0.02 (its \<open>BETWEEN\<close> includes the lower
  bound) and Low Risk at 0 (its last test is \<open>< 0.02\<close>, with no test against 0), and
  \<open>riskCategoryDetailed\<close> has the same two boundaries.
\<close>

theorem riskCategory_boundary_values:
  "riskCategory (Some (2/100)) = ''Medium Risk''
   \<and> riskCategoryDetailed (Some (2/100)) = ''Medium Risk''
   \<and> risk_category (Some (2/100)) = ''Low Risk''
   \<and> riskCategory (Some 0) = ''Low Risk''
   \<and> riskCategoryDetailed (Some 0) = ''Low Risk''
   \<and> risk_category (Some 0) = ''Unknown''"
  by (simp add: riskCategory_def riskCategoryDetailed_def risk_category_def is_true_simps)

subsection \<open>Market share and performance against the quarter\<close>

lemma performanceVsAverage_guarded:
  "quarter_avg rows (f_quarter_key r) = None \<Longrightarrow> performanceVsAverage rows r = Some 0"
  "quarter_avg rows (f_quarter_key r) = Some a \<Longrightarrow> a \<le> 0 \<Longrightarrow> performanceVsAverage rows r = Some 0"
  by (simp_all add: performanceVsAverage_def is_true_simps is_true_null)

text \<open>
  C4. \<open>marketShareByProduct\<close> divides by the quarter's sum with no guard. In a quarter
  whose only row has amount 0 the sum is 0, and where the only amount is NULL the sum is
  NULL: the measure is NULL in both, not 0, while \<open>performanceVsAverage\<close> on the same
  rows is 0.
\<close>

theorem marketShareByProduct_null_on_zero_sum:
  "quarter_sum [fact_amt 20243 1 1 (Some 0)] 20243 = Some 0
   \<and> marketShareByProduct [fact_amt 20243 1 1 (Some 0)] (fact_amt 20243 1 1 (Some 0)) = None
   \<and> performanceVsAverage [fact_amt 20243 1 1 (Some 0)] (fact_amt 20243 1 1 (Some 0)) = Some 0
   \<and> quarter_sum [fact_amt 20243 1 1 None] 20243 = None
   \<and> marketShareByProduct [fact_amt 20243 1 1 None] (fact_amt 20243 1 1 None) = None"
  by (simp add: marketShareByProduct_def performanceVsAverage_def quarter_sum_def quarter_avg_def
        sql_sum_def sql_avg_def sql_div_def sql_mul_def sql_sub_def is_true_simps
        is_true_null fact_amt_def)

lemma performanceCategory_no_amount:
  "f_origination_amt r = None \<Longrightarrow> performanceCategory rows r = ''Underperformer''"
  by (simp add: performanceCategory_def is_true_null)

lemma performanceCategory_no_average:
  "quarter_avg rows (f_quarter_key r) = None \<Longrightarrow> performanceCategory rows r = ''Underperformer''"
  by (simp add: performanceCategory_def is_true_null sql_mul_def)

lemma performanceCategory_zero_average:
  assumes "quarter_avg rows (f_quarter_key r) = Some 0"
  shows "performanceCategory rows r =
           (case f_origination_amt r of None \<Rightarrow> ''Underperformer''
            | Some a \<Rightarrow> if 0 < a then ''Top Performer'' else ''Underperformer'')"
  using assms
  by (simp add: performanceCategory_def is_true_simps is_true_null sql_mul_def split: option.splits)

lemma non_null_member: "(a \<in> set (non_null xs)) = (Some a \<in> set xs)"
  by (induction xs rule: non_null.induct) auto

lemma sum_list_nonneg_zero:
  fixes xs :: "real list"
  assumes "list_all (\<lambda>x. 0 \<le> x) xs" and "sum_list xs = 0" and "a \<in> set xs"
  shows "a = 0"
  using assms
proof (induction xs)
  case Nil
  then show ?case by simp
next
  case (Cons x xs)
  have nn: "0 \<le> sum_list xs"
    using Cons.prems(1) by (simp add: sum_list_nonneg list_all_iff)
  have x0: "0 \<le> x" using Cons.prems(1) by simp
  from Cons.prems(2) nn x0 have "x = 0" and "sum_list xs = 0" by simp_all
  with Cons show ?case by auto
qed

lemma zero_average_nonneg_amount:
  assumes avg: "quarter_avg rows (f_quarter_key r) = Some 0"
    and nn: "quarter_amounts_nonneg rows (f_quarter_key r)"
    and r: "r \<in> set rows" and a: "f_origination_amt r = Some a"
  shows "a = 0"
proof -
  let ?ys = "non_null (map f_origination_amt (filter (\<lambda>x. f_quarter_key x = f_quarter_key r) rows))"
  from avg have ne: "?ys \<noteq> []" and "sum_list ?ys / of_nat (length ?ys) = 0"
    by (auto simp: quarter_avg_def sql_avg_def split: if_splits)
  then have s0: "sum_list ?ys = 0" by simp
  have "Some a \<in> set (map f_origination_amt (filter (\<lambda>x. f_quarter_key x = f_quarter_key r) rows))"
    using r a by force
  then have "a \<in> set ?ys" by (simp only: non_null_member)
  with nn s0 show ?thesis
    unfolding quarter_amounts_nonneg_def by (rule sum_list_nonneg_zero)
qed

text \<open>
  C10, as the code has it. The category is \<open>Underperformer\<close> for a row whose amount is
  NULL, for a row of a quarter whose average amount is NULL, and for a row of a quarter
  whose average is zero when the row's own amount is not positive; that is every row of
  such a quarter when no amount of the quarter is negative.
\<close>

theorem performanceCategory_degenerate:
  "(f_origination_amt r = None \<longrightarrow> performanceCategory rows r = ''Underperformer'')
   \<and> (quarter_avg rows (f_quarter_key r) = None \<longrightarrow> performanceCategory rows r = ''Underperformer'')
   \<and> (quarter_avg rows (f_quarter_key r) = Some 0
        \<and> \<not> is_true (sql_gt (f_origination_amt r) (Some 0))
      \<longrightarrow> performanceCategory rows r = ''Underperformer'')
   \<and> (quarter_avg rows (f_quarter_key r) = Some 0
        \<and> quarter_amounts_nonneg rows (f_quarter_key r) \<and> r \<in> set rows
      \<longrightarrow> performanceCategory rows r = ''Underperformer'')"
proof (intro conjI impI)
  assume "f_origination_amt r = None"
  then show "performanceCategory rows r = ''Underperformer''"
    by (rule performanceCategory_no_amount)
next
  assume "quarter_avg rows (f_quarter_key r) = None"
  then show "performanceCategory rows r = ''Underperformer''"
    by (rule performanceCategory_no_average)
next
  assume h: "quarter_avg rows (f_quarter_key r) = Some 0
               \<and> \<not> is_true (sql_gt (f_origination_amt r) (Some 0))"
  then show "performanceCategory rows r = ''Underperformer''"
    by (cases "f_origination_amt r")
       (simp_all add: performanceCategory_zero_average is_true_simps)
next
  assume h: "quarter_avg rows (f_quarter_key r) = Some 0
               \<and> quarter_amounts_nonneg rows (f_quarter_key r) \<and> r \<in> set rows"
  show "performanceCategory rows r = ''Underperformer''"
  proof (cases "f_origination_amt r")
    case None
    then show ?thesis by (rule performanceCategory_no_amount)
  next
    case (Some a)
    with h have "a = 0" by (blast intro: zero_average_nonneg_amount)
    with h Some show ?thesis by (simp add: performanceCategory_zero_average)
  qed
qed

theorem performanceCategory_degenerate_witness:
  "f_origination_amt (fact_amt 20243 1 1 None) = None
   \<and> quarter_avg [fact_amt 20243 1 1 None] (f_quarter_key (fact_amt 20243 1 1 None)) = None
   \<and> performanceCategory [fact_amt 20243 1 1 None] (fact_amt 20243 1 1 None) = ''Underperformer''
   \<and> quarter_avg [fact_amt 20243 1 1 (Some 0)] (f_quarter_key (fact_amt 20243 1 1 (Some 0))) = Some 0
   \<and> \<not> is_true (sql_gt (f_origination_amt (fact_amt 20243 1 1 (Some 0))) (Some 0))
   \<and> quarter_amounts_nonneg [fact_amt 20243 1 1 (Some 0)] (f_quarter_key (fact_amt 20243 1 1 (Some 0)))
   \<and> fact_amt 20243 1 1 (Some 0) \<in> set [fact_amt 20243 1 1 (Some 0)]
   \<and> performanceCategory [fact_amt 20243 1 1 (Some 0)] (fact_amt 20243 1 1 (Some 0)) = ''Underperformer''"
proof -
  have h1: "f_origination_amt (fact_amt 20243 1 1 None) = None"
    by (simp add: fact_amt_def)
  have h2: "quarter_avg [fact_amt 20243 1 1 None] (f_quarter_key (fact_amt 20243 1 1 None)) = None"
    by (simp add: fact_amt_def quarter_avg_def sql_avg_def)
  have h3: "quarter_avg [fact_amt 20243 1 1 (Some 0)] (f_quarter_key (fact_amt 20243 1 1 (Some 0))) = Some 0"
    by (simp add: fact_amt_def quarter_avg_def sql_avg_def)
  have h4: "\<not> is_true (sql_gt (f_origination_amt (fact_amt 20243 1 1 (Some 0))) (Some 0))"
    by (simp add: fact_amt_def is_true_simps)
  have h5: "quarter_amounts_nonneg [fact_amt 20243 1 1 (Some 0)] (f_quarter_key (fact_amt 20243 1 1 (Some 0)))"
    by (simp add: fact_amt_def quarter_amounts_nonneg_def)
  show ?thesis
    using h1 h2 h3 h4 h5
      performanceCategory_degenerate [of "fact_amt 20243 1 1 None" "[fact_amt 20243 1 1 None]"]
      performanceCategory_degenerate [of "fact_amt 20243 1 1 (Some 0)" "[fact_amt 20243 1 1 (Some 0)]"]
    by simp
qed

text \<open>
  The claim as stated fails where amounts are negative: two rows of one quarter with
  amounts 5 and -5 average to zero, and the row with 5 is a \<open>Top Performer\<close>.
\<close>

theorem performanceCategory_zero_average_counterexample:
  "quarter_avg [fact_amt 20243 1 1 (Some 5), fact_amt 20243 2 1 (Some (- 5))]
       (f_quarter_key (fact_amt 20243 1 1 (Some 5))) = Some 0
   \<and> performanceCategory [fact_amt 20243 1 1 (Some 5), fact_amt 20243 2 1 (Some (- 5))]
       (fact_amt 20243 1 1 (Some 5)) = ''Top Performer''
   \<and> performanceCategory [fact_amt 20243 1 1 (Some 5), fact_amt 20243 2 1 (Some (- 5))]
       (fact_amt 20243 1 1 (Some 5)) \<noteq> ''Underperformer''"
  by (simp add: fact_amt_def quarter_avg_def sql_avg_def performanceCategory_def
        is_true_simps sql_mul_def)

subsection \<open>Year-over-year growth\<close>







lemma fact_amt_sel [simp]:
  "f_quarter_key (fact_amt q g p a) = q" "f_geo_key (fact_amt q g p a) = g"
  "f_product_key (fact_amt q g p a) = p" "f_origination_amt (fact_amt q g p a) = a"
  "f_balance_amt (fact_amt q g p a) = None"
  by (simp_all add: fact_amt_def)




lemma growth_measures_rejected:
  "originationGrowthRate quot rows = Inl (ER_WINDOW_INVALID_WINDOW_FUNC_USE ''lag'')"
  "balanceGrowthRate quot rows = Inl (ER_WINDOW_INVALID_WINDOW_FUNC_USE ''lag'')"
  by (simp_all add: originationGrowthRate_def balanceGrowthRate_def avg_measure_def)


section \<open>Properties of the view and of the validator\<close>

subsection \<open>The reporting view\<close>

lemma powerbi_fact_measures_not_null:
  "v_originations_cnt (powerbi_select j) \<noteq> None \<and> v_origination_amt (powerbi_select j) \<noteq> None
   \<and> v_balance_amt (powerbi_select j) \<noteq> None \<and> v_default_rate (powerbi_select j) \<noteq> None
   \<and> v_prime_rate (powerbi_select j) \<noteq> None \<and> v_lending_rate (powerbi_select j) \<noteq> None"
  by (cases j) (simp add: powerbi_select_def sql_coalesce_def split: option.splits)

text \<open>
  C8. In Scenario A the fact row has no balance amount and no prime or lending rate. The
  view shows 0 for the three missing fact measures, and NULL for two of its pre-calculated
  measures: \<open>balance_to_origination_ratio\<close> (the amount is positive, the balance NULL)
  and \<open>prime_lending_spread\<close> (a bare difference).
\<close>

theorem v_powerbi_optimized_null_measures:
  "map v_balance_amt (v_powerbi_optimized scenario_a) = [Some 0]
   \<and> map v_prime_rate (v_powerbi_optimized scenario_a) = [Some 0]
   \<and> map v_lending_rate (v_powerbi_optimized scenario_a) = [Some 0]
   \<and> map v_avg_origination_per_account (v_powerbi_optimized scenario_a) = [Some 5000]
   \<and> map v_balance_to_origination_ratio (v_powerbi_optimized scenario_a) = [None]
   \<and> map v_prime_lending_spread (v_powerbi_optimized scenario_a) = [None]"
  by (simp add: v_powerbi_optimized_def fact_join_def star_join_def scenario_a_def powerbi_select_def
        sql_coalesce_def sql_real_def sql_div_def sql_sub_def is_true_simps)

subsection \<open>The quality validator\<close>

lemma negative_amounts_condition:
  "is_true (sql_or (sql_lt x (Some 0)) (sql_lt y (Some 0))) =
     ((\<exists>a. x = Some a \<and> a < 0) \<or> (\<exists>b. y = Some b \<and> b < 0))"
  by (cases x; cases y) (auto simp: is_true_def sql_or_def sql_lt_def)

lemma invalid_rate_condition:
  "is_true (sql_or (sql_lt x (Some 0)) (sql_gt x (Some 1))) = (\<exists>r. x = Some r \<and> (r < 0 \<or> 1 < r))"
  by (cases x) (auto simp: is_true_def sql_or_def sql_lt_def sql_gt_def)

lemma sql_max_Some:
  "sql_max (map Some xs) = (if xs = [] then None else Some (Max (set xs)))"
proof (cases xs)
  case Nil
  then show ?thesis by (simp add: sql_max_def)
next
  case (Cons y ys)
  have "non_null (map Some xs) = xs" by (induction xs) simp_all
  moreover have "fold max ys y = Max (set (y # ys))"
    by (rule Max.set_eq_fold [symmetric])
  ultimately show ?thesis using Cons by (simp add: sql_max_def)
qed

lemma fact_date_join_dates:
  "set (map (\<lambda>(f, d). d_quarter_end d) (fact_date_join w)) =
     {q. \<exists>f d. f \<in> set (fact_credit_metrics_qtr w) \<and> d \<in> set (dim_date_qtr w)
            \<and> f_quarter_key f = d_quarter_key d \<and> q = d_quarter_end d}"
  by (auto simp: fact_date_join_def)

lemma fact_date_join_empty:
  "(fact_date_join w = []) =
     ({q. \<exists>f d. f \<in> set (fact_credit_metrics_qtr w) \<and> d \<in> set (dim_date_qtr w)
            \<and> f_quarter_key f = d_quarter_key d \<and> q = d_quarter_end d} = {})"
proof -
  have "(fact_date_join w = []) = (set (map (\<lambda>(f, d). d_quarter_end d) (fact_date_join w)) = {})"
    by simp
  then show ?thesis by (simp only: fact_date_join_dates)
qed

text \<open>
  C9. The validator returns the warehouse it was given, and always returns its report:
  the count of rows with a NULL grain key (none, the grain columns being \<open>NOT NULL\<close>),
  the count of rows with a negative origination or balance amount, the count of rows with
  a default rate below 0 or above 1, the latest \<open>quarter_end\<close> among the date rows whose
  \<open>quarter_key\<close> is that of some fact row, and the days from it to the current date (both
  NULL when no fact row has its date row). With no fact row the three counts are 0 and
  the freshness columns are NULL.
\<close>

theorem ValidateOLAPDataQuality_report:
  "snd (ValidateOLAPDataQuality curdate w) = w
   \<and> map Issue_Count (fst (fst (ValidateOLAPDataQuality curdate w))) =
       [length (filter (\<lambda>f. sql_is_null (Some (f_quarter_key f)) \<or> sql_is_null (Some (f_geo_key f))
                              \<or> sql_is_null (Some (f_product_key f)))
                       (fact_credit_metrics_qtr w)),
        length (filter (\<lambda>f. (\<exists>a. f_origination_amt f = Some a \<and> a < 0)
                              \<or> (\<exists>b. f_balance_amt f = Some b \<and> b < 0))
                       (fact_credit_metrics_qtr w)),
        length (filter (\<lambda>f. \<exists>r. f_default_rate f = Some r \<and> (r < 0 \<or> 1 < r))
                       (fact_credit_metrics_qtr w))]
   \<and> hd (map Issue_Count (fst (fst (ValidateOLAPDataQuality curdate w)))) = 0
   \<and> Latest_Data_Date (snd (fst (ValidateOLAPDataQuality curdate w))) =
       (if {q. \<exists>f d. f \<in> set (fact_credit_metrics_qtr w) \<and> d \<in> set (dim_date_qtr w)
                 \<and> f_quarter_key f = d_quarter_key d \<and> q = d_quarter_end d} = {}
        then None
        else Some (Max {q. \<exists>f d. f \<in> set (fact_credit_metrics_qtr w) \<and> d \<in> set (dim_date_qtr w)
                 \<and> f_quarter_key f = d_quarter_key d \<and> q = d_quarter_end d}))
   \<and> Days_Old (snd (fst (ValidateOLAPDataQuality curdate w))) =
       (if {q. \<exists>f d. f \<in> set (fact_credit_metrics_qtr w) \<and> d \<in> set (dim_date_qtr w)
                 \<and> f_quarter_key f = d_quarter_key d \<and> q = d_quarter_end d} = {}
        then None
        else Some (curdate - Max {q. \<exists>f d. f \<in> set (fact_credit_metrics_qtr w)
                 \<and> d \<in> set (dim_date_qtr w)
                 \<and> f_quarter_key f = d_quarter_key d \<and> q = d_quarter_end d}))
   \<and> (fact_credit_metrics_qtr w = [] \<longrightarrow>
        map Issue_Count (fst (fst (ValidateOLAPDataQuality curdate w))) = [0, 0, 0]
        \<and> Latest_Data_Date (snd (fst (ValidateOLAPDataQuality curdate w))) = None
        \<and> Days_Old (snd (fst (ValidateOLAPDataQuality curdate w))) = None)"
proof -
  let ?V = "ValidateOLAPDataQuality curdate w"
  let ?S = "{q. \<exists>f d. f \<in> set (fact_credit_metrics_qtr w) \<and> d \<in> set (dim_date_qtr w)
                 \<and> f_quarter_key f = d_quarter_key d \<and> q = d_quarter_end d}"
  have m: "map (\<lambda>(f, d). Some (d_quarter_end d)) (fact_date_join w)
             = map Some (map (\<lambda>(f, d). d_quarter_end d) (fact_date_join w))"
    by (simp add: case_prod_unfold)
  have latest0: "Latest_Data_Date (snd (fst ?V)) =
       (if fact_date_join w = [] then None
        else Some (Max (set (map (\<lambda>(f, d). d_quarter_end d) (fact_date_join w)))))"
    unfolding ValidateOLAPDataQuality_def by (simp only: m sql_max_Some) simp
  have days0: "Days_Old (snd (fst ?V)) =
       (if fact_date_join w = [] then None
        else Some (curdate - Max (set (map (\<lambda>(f, d). d_quarter_end d) (fact_date_join w)))))"
    unfolding ValidateOLAPDataQuality_def by (simp only: m sql_max_Some) (simp add: datediff_def)
  have latest: "Latest_Data_Date (snd (fst ?V)) = (if ?S = {} then None else Some (Max ?S))"
    using latest0 by (simp only: fact_date_join_dates fact_date_join_empty)
  have days: "Days_Old (snd (fst ?V)) = (if ?S = {} then None else Some (curdate - Max ?S))"
    using days0 by (simp only: fact_date_join_dates fact_date_join_empty)
  have counts: "map Issue_Count (fst (fst ?V)) =
       [length (filter (\<lambda>f. sql_is_null (Some (f_quarter_key f)) \<or> sql_is_null (Some (f_geo_key f))
                              \<or> sql_is_null (Some (f_product_key f)))
                       (fact_credit_metrics_qtr w)),
        length (filter (\<lambda>f. (\<exists>a. f_origination_amt f = Some a \<and> a < 0)
                              \<or> (\<exists>b. f_balance_amt f = Some b \<and> b < 0))
                       (fact_credit_metrics_qtr w)),
        length (filter (\<lambda>f. \<exists>r. f_default_rate f = Some r \<and> (r < 0 \<or> 1 < r))
                       (fact_credit_metrics_qtr w))]"
    by (simp add: ValidateOLAPDataQuality_def negative_amounts_condition invalid_rate_condition
          sql_is_null_def)
  have first: "hd (map Issue_Count (fst (fst ?V))) = 0"
    by (simp add: ValidateOLAPDataQuality_def sql_is_null_def)
  have same: "snd ?V = w"
    by (simp add: ValidateOLAPDataQuality_def)
  have empty: "fact_credit_metrics_qtr w = [] \<longrightarrow>
        map Issue_Count (fst (fst ?V)) = [0, 0, 0]
        \<and> Latest_Data_Date (snd (fst ?V)) = None \<and> Days_Old (snd (fst ?V)) = None"
  proof
    assume e: "fact_credit_metrics_qtr w = []"
    then have "fact_date_join w = []" by (simp add: fact_date_join_def)
    with e latest0 days0 counts
    show "map Issue_Count (fst (fst ?V)) = [0, 0, 0]
        \<and> Latest_Data_Date (snd (fst ?V)) = None \<and> Days_Old (snd (fst ?V)) = None"
      by simp
  qed
  from same counts first latest days empty show ?thesis by blast
qed

lemma two_quarters_dates:
  "{q. \<exists>f d. f \<in> set (fact_credit_metrics_qtr two_quarters) \<and> d \<in> set (dim_date_qtr two_quarters)
         \<and> f_quarter_key f = d_quarter_key d \<and> q = d_quarter_end d} = {19996, 20088}"
proof -
  have "set (map (\<lambda>(f, d). d_quarter_end d) (fact_date_join two_quarters)) = {19996, 20088}"
    by (simp add: fact_date_join_def two_quarters_def)
  then show ?thesis by (simp only: fact_date_join_dates)
qed

theorem ValidateOLAPDataQuality_report_witness:
  "fact_credit_metrics_qtr empty_warehouse = []
   \<and> map Issue_Count (fst (fst (ValidateOLAPDataQuality 20100 empty_warehouse))) = [0, 0, 0]
   \<and> Latest_Data_Date (snd (fst (ValidateOLAPDataQuality 20100 empty_warehouse))) = None
   \<and> Days_Old (snd (fst (ValidateOLAPDataQuality 20100 empty_warehouse))) = None
   \<and> snd (ValidateOLAPDataQuality 20100 empty_warehouse) = empty_warehouse
   \<and> map Issue_Count (fst (fst (ValidateOLAPDataQuality 20100 two_quarters))) = [0, 0, 0]
   \<and> Latest_Data_Date (snd (fst (ValidateOLAPDataQuality 20100 two_quarters))) = Some 20088
   \<and> Days_Old (snd (fst (ValidateOLAPDataQuality 20100 two_quarters))) = Some 12
   \<and> snd (ValidateOLAPDataQuality 20100 two_quarters) = two_quarters"
proof -
  have h: "fact_credit_metrics_qtr empty_warehouse = []"
    by (simp add: empty_warehouse_def)
  have e: "map Issue_Count (fst (fst (ValidateOLAPDataQuality 20100 empty_warehouse))) = [0, 0, 0]
   \<and> Latest_Data_Date (snd (fst (ValidateOLAPDataQuality 20100 empty_warehouse))) = None
   \<and> Days_Old (snd (fst (ValidateOLAPDataQuality 20100 empty_warehouse))) = None
   \<and> snd (ValidateOLAPDataQuality 20100 empty_warehouse) = empty_warehouse"
    using h ValidateOLAPDataQuality_report [of 20100 empty_warehouse] by blast
  have m: "Max {19996, 20088 :: int} = 20088" by simp
  have c: "[length (filter (\<lambda>f. sql_is_null (Some (f_quarter_key f)) \<or> sql_is_null (Some (f_geo_key f))
                              \<or> sql_is_null (Some (f_product_key f)))
                       (fact_credit_metrics_qtr two_quarters)),
        length (filter (\<lambda>f. (\<exists>a. f_origination_amt f = Some a \<and> a < 0)
                              \<or> (\<exists>b. f_balance_amt f = Some b \<and> b < 0))
                       (fact_credit_metrics_qtr two_quarters)),
        length (filter (\<lambda>f. \<exists>r. f_default_rate f = Some r \<and> (r < 0 \<or> 1 < r))
                       (fact_credit_metrics_qtr two_quarters))] = [0, 0, 0]"
    by (simp add: two_quarters_def sql_is_null_def)
  have t: "map Issue_Count (fst (fst (ValidateOLAPDataQuality 20100 two_quarters))) = [0, 0, 0]
   \<and> Latest_Data_Date (snd (fst (ValidateOLAPDataQuality 20100 two_quarters))) = Some 20088
   \<and> Days_Old (snd (fst (ValidateOLAPDataQuality 20100 two_quarters))) = Some 12
   \<and> snd (ValidateOLAPDataQuality 20100 two_quarters) = two_quarters"
    using ValidateOLAPDataQuality_report [of 20100 two_quarters]
    by (simp only: two_quarters_dates m c) simp
  from h e t show ?thesis by blast
qed

section \<open>Idempotence of the self-heal block\<close>

lemma heal_column_noop: "col_exists n t \<noteq> 0 \<Longrightarrow> heal_column n t = ([], t)"
  by (simp add: heal_column_def)

lemma heal_product_number_noop: "has_prodnum t \<noteq> 1 \<Longrightarrow> heal_product_number to_int t = Inr ([], t)"
  by (simp add: heal_product_number_def)

lemma heal_unique_key_noop: "idx_exists ''uq_prod'' t \<noteq> 0 \<Longrightarrow> heal_unique_key t = Inr ([], t)"
  by (simp add: heal_unique_key_def)

lemma heal_column_adds:
  assumes "heal_column n t = (a, t')"
  shows "col_exists n t' \<noteq> 0"
  using assms by (auto simp: heal_column_def col_exists_def alter_add_column_def split: if_splits)

lemma heal_column_keeps:
  assumes "heal_column n t = (a, t')" and "col_exists m t \<noteq> 0"
  shows "col_exists m t' \<noteq> 0"
  using assms by (auto simp: heal_column_def col_exists_def alter_add_column_def split: if_splits)

lemma filter_renamed:
  assumes "\<And>c. COLUMN_NAME (g c) = COLUMN_NAME c"
  shows "length (filter (\<lambda>c. COLUMN_NAME c = m) (map g cols)) = length (filter (\<lambda>c. COLUMN_NAME c = m) cols)"
  using assms by (induction cols) simp_all

lemma heal_product_number_keeps:
  assumes "heal_product_number to_int t = Inr (a, t')"
  shows "col_exists m t' = col_exists m t"
proof (cases "has_prodnum t = 1")
  case False
  with assms show ?thesis by (simp add: heal_product_number_def)
next
  case True
  with assms have "alter_modify_product_number to_int t = Inr t'"
    by (simp add: heal_product_number_def split: sum.splits)
  then have "table_columns t' =
      map (\<lambda>c. if COLUMN_NAME c = ''product_number''
                then c\<lparr>COLUMN_TYPE := ''INT'', IS_NULLABLE := True\<rparr> else c) (table_columns t)"
    by (auto simp: alter_modify_product_number_def Let_def split: if_splits)
  then show ?thesis
    unfolding col_exists_def by (simp only: ) (rule filter_renamed, simp)
qed

lemma heal_product_number_relaxes:
  assumes "heal_product_number to_int t = Inr (a, t')"
  shows "has_prodnum t' \<noteq> 1"
proof (cases "has_prodnum t = 1")
  case False
  with assms show ?thesis by (simp add: heal_product_number_def)
next
  case True
  with assms have "alter_modify_product_number to_int t = Inr t'"
    by (simp add: heal_product_number_def split: sum.splits)
  then have c: "table_columns t' =
      map (\<lambda>c. if COLUMN_NAME c = ''product_number''
                then c\<lparr>COLUMN_TYPE := ''INT'', IS_NULLABLE := True\<rparr> else c) (table_columns t)"
    by (auto simp: alter_modify_product_number_def Let_def split: if_splits)
  have "filter (\<lambda>c. COLUMN_NAME c = ''product_number'' \<and> \<not> IS_NULLABLE c)
          (map (\<lambda>c. if COLUMN_NAME c = ''product_number''
                then c\<lparr>COLUMN_TYPE := ''INT'', IS_NULLABLE := True\<rparr> else c) cols) = []" for cols
    by (induction cols) simp_all
  with c show ?thesis by (simp add: has_prodnum_def)
qed

lemma heal_unique_key_adds:
  assumes "heal_unique_key t = Inr (a, t')"
  shows "idx_exists ''uq_prod'' t' \<noteq> 0 \<and> table_columns t' = table_columns t"
  using assms
  by (auto simp: heal_unique_key_def alter_add_unique_key_def idx_exists_def
           split: if_splits sum.splits)

text \<open>
  C7. When one run of the block completes, a second run on the table it left takes the
  no-op branch of all five statements: it reports no action and returns the table as it
  is, columns, indexes and rows.
\<close>

theorem dim_product_self_heal_idempotent:
  assumes "dim_product_self_heal to_int t0 = Inr (actions, t)"
  shows "dim_product_self_heal to_int t = Inr ([], t)"
proof -
  obtain a1 t1 where h1: "heal_column ''product_code'' t0 = (a1, t1)" by force
  obtain a2 t2 where h2: "heal_column ''product_type'' t1 = (a2, t2)" by force
  obtain a3 t3 where h3: "heal_column ''segment'' t2 = (a3, t3)" by force
  from assms h1 h2 h3 obtain a4 t4 where h4: "heal_product_number to_int t3 = Inr (a4, t4)"
    by (auto simp: dim_product_self_heal_def split: sum.splits)
  from assms h1 h2 h3 h4 obtain a5 where h5: "heal_unique_key t4 = Inr (a5, t)"
    by (auto simp: dim_product_self_heal_def split: sum.splits)
  have c3: "col_exists ''product_code'' t3 \<noteq> 0" "col_exists ''product_type'' t3 \<noteq> 0"
      "col_exists ''segment'' t3 \<noteq> 0"
  proof -
    have "col_exists ''product_code'' t1 \<noteq> 0" by (rule heal_column_adds [OF h1])
    then have "col_exists ''product_code'' t2 \<noteq> 0" by (rule heal_column_keeps [OF h2])
    then show "col_exists ''product_code'' t3 \<noteq> 0" by (rule heal_column_keeps [OF h3])
    have "col_exists ''product_type'' t2 \<noteq> 0" by (rule heal_column_adds [OF h2])
    then show "col_exists ''product_type'' t3 \<noteq> 0" by (rule heal_column_keeps [OF h3])
    show "col_exists ''segment'' t3 \<noteq> 0" by (rule heal_column_adds [OF h3])
  qed
  have cols: "table_columns t = table_columns t4"
    using h5 by (simp add: heal_unique_key_adds)
  have c: "col_exists ''product_code'' t \<noteq> 0" "col_exists ''product_type'' t \<noteq> 0"
      "col_exists ''segment'' t \<noteq> 0"
    using c3 heal_product_number_keeps [OF h4] cols by (simp_all add: col_exists_def)
  have p: "has_prodnum t \<noteq> 1"
    using heal_product_number_relaxes [OF h4] cols by (simp add: has_prodnum_def)
  have i: "idx_exists ''uq_prod'' t \<noteq> 0"
    using h5 by (simp add: heal_unique_key_adds)
  show ?thesis
    by (simp add: dim_product_self_heal_def heal_column_noop [OF c(1)] heal_column_noop [OF c(2)]
          heal_column_noop [OF c(3)] heal_product_number_noop [OF p] heal_unique_key_noop [OF i])
qed

lemma legacy_dim_product_healed:
  "dim_product_self_heal Some legacy_dim_product =
     Inr ([ADD_COLUMN ''product_code'', ADD_COLUMN ''product_type'', ADD_COLUMN ''segment'',
           MODIFY_COLUMN ''product_number'', ADD_UNIQUE_KEY ''uq_prod''],
          healed_dim_product)"
  by (simp add: dim_product_self_heal_def heal_column_def heal_product_number_def heal_unique_key_def
        col_exists_def has_prodnum_def idx_exists_def alter_add_column_def
        alter_modify_product_number_def alter_add_unique_key_def column_position_def cell_at_def
        convert_cell_def row_key_def legacy_dim_product_def healed_dim_product_def Let_def)

theorem dim_product_self_heal_idempotent_witness:
  "dim_product_self_heal Some legacy_dim_product =
     Inr ([ADD_COLUMN ''product_code'', ADD_COLUMN ''product_type'', ADD_COLUMN ''segment'',
           MODIFY_COLUMN ''product_number'', ADD_UNIQUE_KEY ''uq_prod''],
          healed_dim_product)
   \<and> dim_product_self_heal Some healed_dim_product = Inr ([], healed_dim_product)"
  using legacy_dim_product_healed dim_product_self_heal_idempotent [OF legacy_dim_product_healed]
  by simp

section \<open>Properties of the rollup refresh\<close>

subsection \<open>Storing rows\<close>

lemma sql_bind_Inr: "(sql_bind m f = Inr y) = (\<exists>x. m = Inr x \<and> f x = Inr y)"
  by (cases m) (simp_all add: sql_bind_def)

lemma store_decimal_Inr: "store_decimal m d col v = Inr r \<Longrightarrow> r = map_option (round_dec d) v"
  by (cases v) (auto simp: store_decimal_def split: if_splits)

lemma store_bigint_Inr: "store_bigint col v = Inr r \<Longrightarrow> r = v"
  by (cases v) (auto simp: store_bigint_def split: if_splits)

lemma store_not_null_Inr: "store_not_null col v = Inr r \<Longrightarrow> v = Some r"
  by (cases v) (auto simp: store_not_null_def)

lemma store_rows_all2:
  "store_rows st xs = Inr ys \<Longrightarrow> list_all2 (\<lambda>x y. st x = Inr y) xs ys"
proof (induction xs arbitrary: ys)
  case Nil
  then show ?case by simp
next
  case (Cons x xs)
  then show ?case by (auto simp: sql_bind_Inr)
qed

lemma store_yearly_row_Inr:
  assumes "store_yearly_row x = Inr y"
  shows "ys_country x = Some (ay_country y) \<and> ys_product_type x = Some (ay_product_type y)
     \<and> ay_year y = ys_year x
     \<and> ay_total_originations_cnt y = ys_total_originations_cnt x
     \<and> ay_total_origination_amt y = map_option (round_dec 2) (ys_total_origination_amt x)
     \<and> ay_total_balance_amt y = map_option (round_dec 2) (ys_total_balance_amt x)
     \<and> ay_avg_default_rate y = map_option (round_dec 4) (ys_avg_default_rate x)
     \<and> ay_avg_prime_rate y = map_option (round_dec 4) (ys_avg_prime_rate x)
     \<and> ay_avg_lending_rate y = map_option (round_dec 4) (ys_avg_lending_rate x)"
  using assms unfolding store_yearly_row_def sql_bind_Inr
  by (auto dest!: store_decimal_Inr store_bigint_Inr store_not_null_Inr)

lemma list_all2_map_eq:
  assumes "list_all2 P xs ys" and "\<And>x y. P x y \<Longrightarrow> g y = h x"
  shows "map g ys = map h xs"
  using assms by (induction rule: list_all2_induct) simp_all

lemma list_all2_source:
  assumes "list_all2 P xs ys" and "y \<in> set ys"
  shows "\<exists>x. x \<in> set xs \<and> P x y"
  using assms by (induction rule: list_all2_induct) auto


lemma filter_key_singleton:
  assumes "distinct (map f xs)" and "x \<in> set xs"
  shows "filter (\<lambda>r. f r = f x) xs = [x]"
  using assms
proof (induction xs)
  case Nil
  then show ?case by simp
next
  case (Cons a xs)
  show ?case
  proof (cases "a = x")
    case True
    with Cons.prems have "f x \<notin> f ` set xs" by simp
    then have "\<forall>r\<in>set xs. f r \<noteq> f x" by (metis imageI)
    then have "filter (\<lambda>r. f r = f x) xs = []" by (simp add: filter_empty_conv)
    with True show ?thesis by simp
  next
    case False
    with Cons.prems have "x \<in> set xs" and "distinct (map f xs)" by auto
    moreover from this Cons.prems have "f a \<noteq> f x" by force
    ultimately show ?thesis using Cons.IH by simp
  qed
qed

subsection \<open>Grouping\<close>

lemma first_rows_subset: "set (first_rows key seen xs) \<subseteq> set xs"
  by (induction xs arbitrary: seen) auto

lemma first_rows_keys: "key ` set (first_rows key seen xs) = key ` set xs - set seen"
  by (induction xs arbitrary: seen) auto

lemma first_rows_distinct: "distinct (map key (first_rows key seen xs))"
proof (induction xs arbitrary: seen)
  case Nil
  then show ?case by simp
next
  case (Cons x xs)
  have "key x \<notin> key ` set (first_rows key (key x # seen) xs)"
    by (simp add: first_rows_keys)
  with Cons show ?case by simp
qed

lemma first_rows_representative:
  assumes "x \<in> set xs"
  shows "\<exists>r. r \<in> set (first_rows key [] xs) \<and> key r = key x"
proof -
  from assms have "key x \<in> key ` set xs - set []" by simp
  then have "key x \<in> key ` set (first_rows key [] xs)" by (simp only: first_rows_keys)
  then show ?thesis by auto
qed

lemma non_null_map: "non_null (map e xs) = List.map_filter e xs"
proof (induction xs)
  case Nil
  then show ?case by (simp add: List.map_filter_simps)
next
  case (Cons x xs)
  then show ?case by (cases "e x") (simp_all add: List.map_filter_simps)
qed

subsection \<open>The join under unique dimension keys\<close>

lemma star_join_set:
  "((f, d, g, p) \<in> set (star_join facts dates geos products)) =
     (f \<in> set facts \<and> d \<in> set dates \<and> f_quarter_key f = d_quarter_key d
      \<and> g \<in> set geos \<and> f_geo_key f = g_geo_key g
      \<and> p \<in> set products \<and> f_product_key f = p_product_key p)"
  by (auto simp: star_join_def)

lemma star_join_Cons:
  "star_join (f # facts) dates geos products
     = star_join [f] dates geos products @ star_join facts dates geos products"
  by (simp add: star_join_def)

lemma concat_map_if:
  "concat (map (\<lambda>x. if c x then h x else []) xs) = concat (map h (filter c xs))"
  by (induction xs) simp_all

lemma star_join_single:
  "star_join [f] dates geos products =
     concat (map (\<lambda>d. concat (map (\<lambda>g. map (\<lambda>p. (f, d, g, p))
         (filter (\<lambda>p. f_product_key f = p_product_key p) products))
         (filter (\<lambda>g. f_geo_key f = g_geo_key g) geos)))
         (filter (\<lambda>d. f_quarter_key f = d_quarter_key d) dates))"
proof -
  have p: "\<And>d g. concat (map (\<lambda>p. if f_product_key f = p_product_key p then [(f, d, g, p)] else []) products)
        = map (\<lambda>p. (f, d, g, p)) (filter (\<lambda>p. f_product_key f = p_product_key p) products)"
    by (induction products) simp_all
  show ?thesis
    by (simp add: star_join_def p concat_map_if)
qed

lemma filter_key_cases:
  assumes "distinct (map k xs)"
  shows "filter (\<lambda>x. v = k x) xs = [] \<or> (\<exists>x. filter (\<lambda>x. v = k x) xs = [x])"
proof (cases "\<exists>x\<in>set xs. v = k x")
  case True
  then obtain x where x: "x \<in> set xs" and v: "v = k x" by blast
  have "filter (\<lambda>r. k r = k x) xs = [x]" using assms x by (rule filter_key_singleton)
  moreover have "(\<lambda>r. k r = k x) = (\<lambda>x. v = k x)" using v by auto
  ultimately show ?thesis by simp
next
  case False
  then have "filter (\<lambda>x. v = k x) xs = []" by (simp add: filter_empty_conv)
  then show ?thesis ..
qed

lemma filter_eq_singleton:
  assumes "filter c xs = [x]"
  shows "(y \<in> set xs \<and> c y) = (y = x)"
proof -
  have "set (filter c xs) = {x}" using assms by simp
  then show ?thesis by auto
qed

lemma filter_eq_empty: "filter c xs = [] \<Longrightarrow> \<not> (y \<in> set xs \<and> c y)"
  by (simp add: filter_empty_conv)

lemma star_join_single_facts:
  assumes "distinct (map d_quarter_key dates)" and "distinct (map g_geo_key geos)"
    and "distinct (map p_product_key products)"
  shows "map fst (filter P (star_join [f] dates geos products)) =
     (if \<exists>d g p. d \<in> set dates \<and> f_quarter_key f = d_quarter_key d
            \<and> g \<in> set geos \<and> f_geo_key f = g_geo_key g
            \<and> p \<in> set products \<and> f_product_key f = p_product_key p \<and> P (f, d, g, p)
      then [f] else [])"
proof -
  let ?D = "filter (\<lambda>d. f_quarter_key f = d_quarter_key d) dates"
  let ?G = "filter (\<lambda>g. f_geo_key f = g_geo_key g) geos"
  let ?P = "filter (\<lambda>p. f_product_key f = p_product_key p) products"
  from filter_key_cases [OF assms(1)] have "?D = [] \<or> (\<exists>d. ?D = [d])" .
  moreover from filter_key_cases [OF assms(2)] have "?G = [] \<or> (\<exists>g. ?G = [g])" .
  moreover from filter_key_cases [OF assms(3)] have "?P = [] \<or> (\<exists>p. ?P = [p])" .
  ultimately consider "?D = []" | "?G = []" | "?P = []"
    | d g p where "?D = [d]" "?G = [g]" "?P = [p]" by blast
  then show ?thesis
  proof cases
    case 1
    from filter_eq_empty [OF 1] have "\<And>d. \<not> (d \<in> set dates \<and> f_quarter_key f = d_quarter_key d)" .
    then show ?thesis by (simp add: star_join_single 1) blast
  next
    case 2
    from filter_eq_empty [OF 2] have "\<And>g. \<not> (g \<in> set geos \<and> f_geo_key f = g_geo_key g)" .
    then show ?thesis by (simp add: star_join_single 2) blast
  next
    case 3
    from filter_eq_empty [OF 3] have "\<And>p. \<not> (p \<in> set products \<and> f_product_key f = p_product_key p)" .
    then show ?thesis by (simp add: star_join_single 3) blast
  next
    case 4
    have d: "\<And>d'. (d' \<in> set dates \<and> f_quarter_key f = d_quarter_key d') = (d' = d)"
      using 4(1) by (rule filter_eq_singleton)
    have g: "\<And>g'. (g' \<in> set geos \<and> f_geo_key f = g_geo_key g') = (g' = g)"
      using 4(2) by (rule filter_eq_singleton)
    have p: "\<And>p'. (p' \<in> set products \<and> f_product_key f = p_product_key p') = (p' = p)"
      using 4(3) by (rule filter_eq_singleton)
    have "(\<exists>d' g' p'. d' \<in> set dates \<and> f_quarter_key f = d_quarter_key d'
            \<and> g' \<in> set geos \<and> f_geo_key f = g_geo_key g'
            \<and> p' \<in> set products \<and> f_product_key f = p_product_key p' \<and> P (f, d', g', p'))
          = P (f, d, g, p)"
      using d g p by metis
    then show ?thesis by (simp add: star_join_single 4)
  qed
qed

lemma star_join_facts:
  assumes "distinct (map d_quarter_key dates)" and "distinct (map g_geo_key geos)"
    and "distinct (map p_product_key products)"
  shows "map fst (filter P (star_join facts dates geos products)) =
     filter (\<lambda>f. \<exists>d g p. d \<in> set dates \<and> f_quarter_key f = d_quarter_key d
            \<and> g \<in> set geos \<and> f_geo_key f = g_geo_key g
            \<and> p \<in> set products \<and> f_product_key f = p_product_key p \<and> P (f, d, g, p)) facts"
proof (induction facts)
  case Nil
  then show ?case by (simp add: star_join_def)
next
  case (Cons f facts)
  show ?case
    by (simp only: star_join_Cons [of f facts] filter_append map_append
          star_join_single_facts [OF assms] Cons.IH)
       auto
qed

text \<open>Rounding to the scale of a column gives the nearest value of that scale, the one
  away from zero when two are equally near.\<close>

lemma round_dec_nearest:
  "(\<exists>n::int. round_dec d x = of_int n / 10 ^ d)
   \<and> \<bar>round_dec d x - x\<bar> \<le> 1 / (2 * 10 ^ d)
   \<and> (\<bar>round_dec d x - x\<bar> = 1 / (2 * 10 ^ d) \<longrightarrow> \<bar>x\<bar> < \<bar>round_dec d x\<bar>)"
proof -
  have pos: "(0::real) < 10 ^ d" by simp
  have key: "\<And>y::real. 0 \<le> y \<Longrightarrow>
      \<bar>of_int \<lfloor>y * 10 ^ d + 1/2\<rfloor> / 10 ^ d - y\<bar> \<le> 1 / (2 * 10 ^ d)
    \<and> (\<bar>of_int \<lfloor>y * 10 ^ d + 1/2\<rfloor> / 10 ^ d - y\<bar> = 1 / (2 * 10 ^ d)
           \<longrightarrow> y < of_int \<lfloor>y * 10 ^ d + 1/2\<rfloor> / 10 ^ d)
    \<and> 0 \<le> (of_int \<lfloor>y * 10 ^ d + 1/2\<rfloor> :: real) / 10 ^ d"
  proof -
    fix y :: real assume y: "0 \<le> y"
    define z where "z = y * 10 ^ d"
    define n where "n = \<lfloor>z + 1/2\<rfloor>"
    have z: "0 \<le> z" using y by (simp add: z_def)
    have n1: "of_int n \<le> z + 1/2" and n2: "z + 1/2 < of_int n + 1"
      unfolding n_def by linarith+
    have n0: "0 \<le> n" using z unfolding n_def by linarith
    have yz: "y = z / 10 ^ d" by (simp add: z_def)
    have diff: "of_int n / 10 ^ d - y = (of_int n - z) / 10 ^ d"
      by (simp add: yz diff_divide_distrib)
    have a: "\<bar>of_int n - z\<bar> \<le> 1/2" using n1 n2 by linarith
    have b: "\<bar>of_int n - z\<bar> = 1/2 \<longrightarrow> z < of_int n" using n1 n2 by linarith
    have e: "\<bar>of_int n / 10 ^ d - y\<bar> = \<bar>of_int n - z\<bar> / 10 ^ d"
      by (simp add: diff)
    have c1: "\<bar>of_int n - z\<bar> / 10 ^ d \<le> 1 / (2 * 10 ^ d)"
      using a pos by (simp add: field_simps)
    have c2: "\<bar>of_int n - z\<bar> / 10 ^ d = 1 / (2 * 10 ^ d) \<longrightarrow> \<bar>of_int n - z\<bar> = 1/2"
      using pos by (simp add: field_simps)
    have c3: "z < of_int n \<longrightarrow> y < of_int n / 10 ^ d"
      using pos by (simp add: yz divide_less_cancel)
    have c4: "0 \<le> (of_int n :: real) / 10 ^ d" using n0 by simp
    from e c1 c2 c3 c4 b
    have "\<bar>of_int n / 10 ^ d - y\<bar> \<le> 1 / (2 * 10 ^ d)
    \<and> (\<bar>of_int n / 10 ^ d - y\<bar> = 1 / (2 * 10 ^ d) \<longrightarrow> y < of_int n / 10 ^ d)
    \<and> 0 \<le> (of_int n :: real) / 10 ^ d"
      by simp
    then show "\<bar>of_int \<lfloor>y * 10 ^ d + 1/2\<rfloor> / 10 ^ d - y\<bar> \<le> 1 / (2 * 10 ^ d)
    \<and> (\<bar>of_int \<lfloor>y * 10 ^ d + 1/2\<rfloor> / 10 ^ d - y\<bar> = 1 / (2 * 10 ^ d)
           \<longrightarrow> y < of_int \<lfloor>y * 10 ^ d + 1/2\<rfloor> / 10 ^ d)
    \<and> 0 \<le> (of_int \<lfloor>y * 10 ^ d + 1/2\<rfloor> :: real) / 10 ^ d"
      unfolding n_def z_def by blast
  qed
  show ?thesis
  proof (cases "0 \<le> x")
    case True
    have r: "round_dec d x = of_int \<lfloor>x * 10 ^ d + 1/2\<rfloor> / 10 ^ d"
      using True by (simp add: round_dec_def)
    from key [OF True] True show ?thesis unfolding r by (auto simp: abs_if)
  next
    case False
    then have nx: "0 \<le> - x" by simp
    have r: "round_dec d x = - (of_int \<lfloor>- x * 10 ^ d + 1/2\<rfloor> / 10 ^ d)"
      using False by (simp add: round_dec_def)
    have e: "\<exists>n::int. - (of_int \<lfloor>- x * 10 ^ d + 1/2\<rfloor> / 10 ^ d) = (of_int n :: real) / 10 ^ d"
      by (rule exI [of _ "- \<lfloor>- x * 10 ^ d + 1/2\<rfloor>"]) simp
    from key [OF nx] False e show ?thesis unfolding r by (auto simp: abs_if split: if_splits)
  qed
qed

text \<open>A value that already has the scale of the column is stored as it is, and so is a
  sum of such values.\<close>

lemma round_dec_exact: "round_dec d (of_int n / 10 ^ d) = of_int n / 10 ^ d"
proof (cases "0 \<le> n")
  case True
  have "\<lfloor>(of_int n :: real) + 1 / 2\<rfloor> = n" by linarith
  with True show ?thesis by (simp add: round_dec_def)
next
  case False
  have "\<lfloor>- (of_int n :: real) + 1 / 2\<rfloor> = - n" by linarith
  moreover from False have "\<not> 0 \<le> (of_int n :: real) / 10 ^ d"
    by (simp add: divide_less_0_iff not_le)
  ultimately show ?thesis by (simp add: round_dec_def)
qed

lemma sum_list_decimals:
  fixes xs :: "real list"
  assumes "\<forall>x\<in>set xs. \<exists>n::int. x = of_int n / 10 ^ d"
  shows "\<exists>n::int. sum_list xs = of_int n / 10 ^ d"
  using assms
proof (induction xs)
  case Nil
  have "(0::real) = of_int 0 / 10 ^ d" by simp
  then show ?case by (metis sum_list.Nil)
next
  case (Cons x xs)
  then obtain n m :: int where "sum_list xs = of_int n / 10 ^ d" and "x = of_int m / 10 ^ d"
    by auto
  then have "sum_list (x # xs) = of_int (m + n) / 10 ^ d"
    by (simp add: add_divide_distrib)
  then show ?case by blast
qed

lemma total_stored_exactly:
  fixes xs :: "real list"
  assumes "\<forall>x\<in>set xs. \<exists>n::int. x = of_int n / 10 ^ d"
  shows "round_dec d (sum_list xs) = sum_list xs"
proof -
  from sum_list_decimals [OF assms] obtain n :: int where "sum_list xs = of_int n / 10 ^ d" ..
  then show ?thesis by (simp only: round_dec_exact)
qed

subsection \<open>What a successful run leaves\<close>

lemma fact_join_agg [simp]:
  "fact_join (w\<lparr>agg_credit_metrics_yearly := a\<rparr>) = fact_join w"
  "fact_join (w\<lparr>agg_credit_metrics_quarterly := b\<rparr>) = fact_join w"
  by (simp_all add: fact_join_def)

lemma yearly_aggregate_agg [simp]:
  "yearly_aggregate ck (w\<lparr>agg_credit_metrics_yearly := a\<rparr>) = yearly_aggregate ck w"
  "yearly_aggregate ck (w\<lparr>agg_credit_metrics_quarterly := b\<rparr>) = yearly_aggregate ck w"
  by (simp_all add: fun_eq_iff yearly_aggregate_def yearly_group_def)

lemma select_yearly_agg [simp]:
  "select_yearly ck (w\<lparr>agg_credit_metrics_yearly := a\<rparr>) = select_yearly ck w"
  "select_yearly ck (w\<lparr>agg_credit_metrics_quarterly := b\<rparr>) = select_yearly ck w"
  by (simp_all add: select_yearly_def)

lemma quarterly_aggregate_agg [simp]:
  "quarterly_aggregate ck (w\<lparr>agg_credit_metrics_yearly := a\<rparr>) = quarterly_aggregate ck w"
  "quarterly_aggregate ck (w\<lparr>agg_credit_metrics_quarterly := b\<rparr>) = quarterly_aggregate ck w"
  by (simp_all add: fun_eq_iff quarterly_aggregate_def quarterly_group_def)

lemma select_quarterly_agg [simp]:
  "select_quarterly ck (w\<lparr>agg_credit_metrics_yearly := a\<rparr>) = select_quarterly ck w"
  "select_quarterly ck (w\<lparr>agg_credit_metrics_quarterly := b\<rparr>) = select_quarterly ck w"
  by (simp_all add: select_quarterly_def)

lemma insert_yearly_after_truncate:
  assumes "insert_agg_credit_metrics_yearly ck (truncate_agg_credit_metrics_yearly w) = Inr w'"
  shows "\<exists>rows. list_all2 (\<lambda>x y. store_yearly_row x = Inr y) (select_yearly ck w) rows
           \<and> distinct (map (ay_key ck) rows)
           \<and> w' = w\<lparr>agg_credit_metrics_yearly := rows\<rparr>"
  using assms
  by (auto simp: insert_agg_credit_metrics_yearly_def truncate_agg_credit_metrics_yearly_def
        sql_bind_Inr split: if_splits dest!: store_rows_all2)

lemma insert_quarterly_after_truncate:
  assumes "insert_agg_credit_metrics_quarterly ck (truncate_agg_credit_metrics_quarterly w) = Inr w'"
  shows "\<exists>rows. w' = w\<lparr>agg_credit_metrics_quarterly := rows\<rparr>"
  using assms
  by (auto simp: insert_agg_credit_metrics_quarterly_def truncate_agg_credit_metrics_quarterly_def
        sql_bind_Inr split: if_splits)

lemma RefreshOLAPAggregations_ok:
  assumes "RefreshOLAPAggregations ck s = (trace, None)"
  shows "\<exists>w'. insert_agg_credit_metrics_yearly ck (truncate_agg_credit_metrics_yearly (current s)) = Inr w'
           \<and> last (s # trace) = idle w'"
  using assms
  by (auto simp: RefreshOLAPAggregations_def RefreshOLAPAggregations_body_def TRUNCATE_TABLE_def
        INSERT_SELECT_def idle_def split: sum.splits)

lemma RefreshAllAggregations_ok:
  assumes "RefreshAllAggregations ck s = (trace, None)"
  shows "\<exists>w' w''. insert_agg_credit_metrics_yearly ck (truncate_agg_credit_metrics_yearly (current s)) = Inr w'
           \<and> insert_agg_credit_metrics_quarterly ck (truncate_agg_credit_metrics_quarterly w') = Inr w''
           \<and> last (s # trace) = idle w''"
  using assms
  by (auto simp: RefreshAllAggregations_def RefreshOLAPAggregations_body_def TRUNCATE_TABLE_def
        INSERT_SELECT_def START_TRANSACTION_def COMMIT_def idle_def split: sum.splits)

lemma refreshed_yearly_table:
  assumes "RefreshOLAPAggregations ck s = (trace, None) \<or> RefreshAllAggregations ck s = (trace, None)"
  shows "list_all2 (\<lambda>x y. store_yearly_row x = Inr y) (select_yearly ck (current s))
           (agg_credit_metrics_yearly (committed (last (s # trace))))
       \<and> distinct (map (ay_key ck) (agg_credit_metrics_yearly (committed (last (s # trace)))))"
  using assms
proof
  assume "RefreshOLAPAggregations ck s = (trace, None)"
  from RefreshOLAPAggregations_ok [OF this] obtain w'
    where i: "insert_agg_credit_metrics_yearly ck (truncate_agg_credit_metrics_yearly (current s)) = Inr w'"
      and l: "last (s # trace) = idle w'" by blast
  from insert_yearly_after_truncate [OF i] obtain rows
    where r: "list_all2 (\<lambda>x y. store_yearly_row x = Inr y) (select_yearly ck (current s)) rows"
      and dr: "distinct (map (ay_key ck) rows)"
      and w': "w' = (current s)\<lparr>agg_credit_metrics_yearly := rows\<rparr>" by blast
  show ?thesis by (simp only: l) (simp add: idle_def w' r dr)
next
  assume "RefreshAllAggregations ck s = (trace, None)"
  from RefreshAllAggregations_ok [OF this] obtain w' w''
    where i: "insert_agg_credit_metrics_yearly ck (truncate_agg_credit_metrics_yearly (current s)) = Inr w'"
      and q: "insert_agg_credit_metrics_quarterly ck (truncate_agg_credit_metrics_quarterly w') = Inr w''"
      and l: "last (s # trace) = idle w''" by blast
  from insert_yearly_after_truncate [OF i] obtain rows
    where r: "list_all2 (\<lambda>x y. store_yearly_row x = Inr y) (select_yearly ck (current s)) rows"
      and dr: "distinct (map (ay_key ck) rows)"
      and w': "w' = (current s)\<lparr>agg_credit_metrics_yearly := rows\<rparr>" by blast
  from insert_quarterly_after_truncate [OF q] obtain qrows
    where w'': "w'' = w'\<lparr>agg_credit_metrics_quarterly := qrows\<rparr>" by blast
  show ?thesis by (simp only: l) (simp add: idle_def w' w'' r dr)
qed

subsection \<open>The stored yearly rows\<close>

text \<open>The fact rows that one selected row aggregates, read off the fact table.\<close>

lemma yearly_group_facts:
  assumes "distinct (map d_quarter_key (dim_date_qtr w))" and "distinct (map g_geo_key (dim_geo w))"
    and "distinct (map p_product_key (dim_product w))"
  shows "yearly_group ck w (yearly_key ck (f, d, g, p)) =
     filter (\<lambda>f'. \<exists>d' g' p'.
          d' \<in> set (dim_date_qtr w) \<and> f_quarter_key f' = d_quarter_key d'
        \<and> g' \<in> set (dim_geo w) \<and> f_geo_key f' = g_geo_key g'
        \<and> p' \<in> set (dim_product w) \<and> f_product_key f' = p_product_key p'
        \<and> d_year d' = d_year d
        \<and> map_option ck (g_country g') = map_option ck (g_country g)
        \<and> map_option ck (p_product_type p') = map_option ck (p_product_type p))
       (fact_credit_metrics_qtr w)"
  by (simp add: yearly_group_def fact_join_def star_join_facts [OF assms] yearly_key_def)

lemma sql_sum_map:
  "sql_sum (map e xs) =
     (if List.map_filter e xs = [] then None else Some (sum_list (List.map_filter e xs)))"
  by (simp add: sql_sum_def non_null_map)

lemma sql_sum_int_map:
  "sql_sum_int (map e xs) =
     (if List.map_filter e xs = [] then None else Some (sum_list (List.map_filter e xs)))"
  by (simp add: sql_sum_int_def non_null_map)

lemma sql_avg_map:
  "sql_avg (map e xs) =
     (if List.map_filter e xs = [] then None
      else Some (sum_list (List.map_filter e xs) / real (length (List.map_filter e xs))))"
  by (simp add: sql_avg_def non_null_map)

lemma stored_row_of_join_row:
  assumes st: "list_all2 (\<lambda>x y. store_yearly_row x = Inr y) (select_yearly ck w) table"
    and j: "j \<in> set (fact_join w)"
  shows "\<exists>j0 row. j0 \<in> set (fact_join w) \<and> yearly_key ck j0 = yearly_key ck j
           \<and> row \<in> set table \<and> store_yearly_row (yearly_aggregate ck w j0) = Inr row"
proof -
  from first_rows_representative [OF j, of "yearly_key ck"] obtain j0
    where j0: "j0 \<in> set (first_rows (yearly_key ck) [] (fact_join w))"
      and k: "yearly_key ck j0 = yearly_key ck j" by blast
  from j0 have x: "yearly_aggregate ck w j0 \<in> set (select_yearly ck w)"
    by (simp add: select_yearly_def)
  from st have "list_all2 (\<lambda>y x. store_yearly_row x = Inr y) table (select_yearly ck w)"
    by (simp add: list_all2_conv_all_nth)
  from list_all2_source [OF this x] obtain row
    where "row \<in> set table" and "store_yearly_row (yearly_aggregate ck w j0) = Inr row" by blast
  moreover from j0 have "j0 \<in> set (fact_join w)" by (rule subsetD [OF first_rows_subset])
  ultimately show ?thesis using k by blast
qed

lemma join_row_of_stored_row:
  assumes st: "list_all2 (\<lambda>x y. store_yearly_row x = Inr y) (select_yearly ck w) table"
    and r: "row \<in> set table"
  shows "\<exists>f d g p. (f, d, g, p) \<in> set (fact_join w) \<and> ay_year row = d_year d
           \<and> g_country g = Some (ay_country row) \<and> p_product_type p = Some (ay_product_type row)"
proof -
  from list_all2_source [OF st r] obtain x
    where x: "x \<in> set (select_yearly ck w)" and sx: "store_yearly_row x = Inr row" by blast
  from x obtain j where j: "j \<in> set (first_rows (yearly_key ck) [] (fact_join w))"
    and xj: "x = yearly_aggregate ck w j" by (auto simp: select_yearly_def)
  obtain f d g p where fdgp: "j = (f, d, g, p)" by (cases j) auto
  from j have "j \<in> set (fact_join w)" by (rule subsetD [OF first_rows_subset])
  moreover from store_yearly_row_Inr [OF sx]
  have "ay_year row = d_year d \<and> g_country g = Some (ay_country row)
      \<and> p_product_type p = Some (ay_product_type row)"
    by (simp add: xj fdgp yearly_aggregate_def)
  ultimately show ?thesis unfolding fdgp by blast
qed

subsection \<open>Scenario A\<close>

lemma scenario_a_join:
  "fact_join scenario_a =
     [(\<lparr>f_quarter_key = 20243, f_geo_key = 1, f_product_key = 1,
          f_originations_cnt = Some 100, f_origination_amt = Some 500000, f_balance_amt = None,
          f_default_rate = Some (3/100), f_prime_rate = None, f_lending_rate = None\<rparr>,
       \<lparr>d_quarter_key = 20243, d_year = 2024, d_quarter = 3,
          d_quarter_start = 19905, d_quarter_end = 19996\<rparr>,
       \<lparr>g_geo_key = 1, g_country = Some ''US'', g_state_province = None, g_city = None\<rparr>,
       \<lparr>p_product_key = 1, p_product_code = Some ''CC'', p_product_type = Some ''CreditCard'',
          p_segment = Some ''Retail''\<rparr>)]"
  by (simp add: fact_join_def star_join_def scenario_a_def)

lemma select_yearly_scenario_a:
  "select_yearly ck scenario_a =
     [\<lparr>ys_year = 2024, ys_country = Some ''US'', ys_product_type = Some ''CreditCard'',
       ys_total_originations_cnt = Some 100, ys_total_origination_amt = Some 500000,
       ys_total_balance_amt = None, ys_avg_default_rate = Some (3/100),
       ys_avg_prime_rate = None, ys_avg_lending_rate = None\<rparr>]"
  by (simp add: select_yearly_def yearly_aggregate_def yearly_group_def yearly_key_def
        scenario_a_join sql_sum_def sql_sum_int_def sql_avg_def)

lemma select_quarterly_scenario_a:
  "select_quarterly ck scenario_a =
     [\<lparr>qs_year = 2024, qs_quarter = 3, qs_quarter_key = 20243, qs_country = Some ''US'',
       qs_product_type = Some ''CreditCard'',
       qs_total_originations_cnt = Some 100, qs_total_origination_amt = Some 500000,
       qs_total_balance_amt = None, qs_avg_default_rate = Some (3/100),
       qs_avg_prime_rate = None, qs_avg_lending_rate = None,
       qs_min_default_rate = Some (3/100), qs_max_default_rate = Some (3/100),
       qs_stddev_default_rate = Some 0\<rparr>]"
  by (simp add: select_quarterly_def quarterly_aggregate_def quarterly_group_def quarterly_key_def
        scenario_a_join sql_sum_def sql_sum_int_def sql_avg_def sql_min_def sql_max_def
        sql_stddev_def)

lemma insert_yearly_like_scenario_a:
  assumes "select_yearly ck w = select_yearly ck scenario_a" and "agg_credit_metrics_yearly w = []"
  shows "insert_agg_credit_metrics_yearly ck w
           = Inr (w\<lparr>agg_credit_metrics_yearly := [scenario_a_yearly]\<rparr>)"
  using assms
  by (simp add: insert_agg_credit_metrics_yearly_def select_yearly_scenario_a store_yearly_row_def
        sql_bind_def store_not_null_def store_bigint_def store_decimal_def round_dec_def
        scenario_a_yearly_def ay_key_def)

lemma insert_quarterly_like_scenario_a:
  assumes "select_quarterly ck w = select_quarterly ck scenario_a"
    and "agg_credit_metrics_quarterly w = []"
  shows "insert_agg_credit_metrics_quarterly ck w =
           Inr (w\<lparr>agg_credit_metrics_quarterly := [scenario_a_quarterly]\<rparr>)"
  using assms
  by (simp add: insert_agg_credit_metrics_quarterly_def select_quarterly_scenario_a
        store_quarterly_row_def sql_bind_def store_not_null_def store_bigint_def store_decimal_def
        round_dec_def scenario_a_quarterly_def aq_key_def)

lemma scenario_a_tables:
  "agg_credit_metrics_yearly scenario_a = []"
  "agg_credit_metrics_quarterly scenario_a = []"
  "scenario_a\<lparr>agg_credit_metrics_yearly := []\<rparr> = scenario_a"
  "scenario_a\<lparr>agg_credit_metrics_quarterly := []\<rparr> = scenario_a"
  by (simp_all add: scenario_a_def)

lemma RefreshOLAPAggregations_scenario_a:
  "RefreshOLAPAggregations ck (idle scenario_a) =
     ([idle scenario_a, idle (scenario_a\<lparr>agg_credit_metrics_yearly := [scenario_a_yearly]\<rparr>)], None)"
  by (simp add: RefreshOLAPAggregations_def RefreshOLAPAggregations_body_def TRUNCATE_TABLE_def
        INSERT_SELECT_def idle_def truncate_agg_credit_metrics_yearly_def scenario_a_tables
        insert_yearly_like_scenario_a)

lemma RefreshAllAggregations_scenario_a:
  "RefreshAllAggregations ck (idle scenario_a) =
     ([\<lparr>committed = scenario_a, current = scenario_a, in_transaction = True\<rparr>,
       idle scenario_a,
       idle (scenario_a\<lparr>agg_credit_metrics_yearly := [scenario_a_yearly]\<rparr>),
       idle (scenario_a\<lparr>agg_credit_metrics_yearly := [scenario_a_yearly]\<rparr>),
       idle (scenario_a\<lparr>agg_credit_metrics_yearly := [scenario_a_yearly],
                        agg_credit_metrics_quarterly := [scenario_a_quarterly]\<rparr>),
       idle (scenario_a\<lparr>agg_credit_metrics_yearly := [scenario_a_yearly],
                        agg_credit_metrics_quarterly := [scenario_a_quarterly]\<rparr>)], None)"
  by (simp add: RefreshAllAggregations_def RefreshOLAPAggregations_body_def TRUNCATE_TABLE_def
        INSERT_SELECT_def START_TRANSACTION_def COMMIT_def idle_def
        truncate_agg_credit_metrics_yearly_def truncate_agg_credit_metrics_quarterly_def
        scenario_a_tables insert_yearly_like_scenario_a insert_quarterly_like_scenario_a)

text \<open>
  C1, as the code has it. Take a run of \<open>RefreshOLAPAggregations\<close> or of
  \<open>RefreshAllAggregations\<close> that raised no error, on a warehouse whose dimension tables
  have unique keys (their primary keys), and a fact row \<open>f\<close> that joins the date row
  \<open>d\<close>, the geography row \<open>g\<close> and the product row \<open>p\<close>. Then \<open>g\<close> has a country and
  \<open>p\<close> a product type, and the committed table \<open>agg_credit_metrics_yearly\<close> holds exactly
  one row of that year whose country and product type equal them under the collation. Its
  totals are the sums, and its averages the arithmetic means, of the non-NULL values of
  the measure over the fact rows \<open>fs\<close> that join a date row of that year, a geography row
  of that country and a product row of that product type (equal under the collation), as
  the columns store them: the totals rounded to two decimals (\<open>DECIMAL(18,2)\<close>), the
  averages to four (\<open>DECIMAL(9,4)\<close>); a measure that has no non-NULL value in \<open>fs\<close> is
  NULL. Every row of the table shows the year, country and product type of a join row, and
  no two rows have the same key. Rounding to \<open>n\<close> decimals gives the nearest value of
  \<open>n\<close> decimals, the one away from zero when two are equally near. For Scenario A the
  table is one row with total amount 500000 and average default rate 0.03.
\<close>

theorem yearly_rollup_after_refresh:
  assumes ok: "RefreshOLAPAggregations ck s = (trace, None) \<or> RefreshAllAggregations ck s = (trace, None)"
    and tbl: "table = agg_credit_metrics_yearly (committed (last (s # trace)))"
    and facts: "facts = fact_credit_metrics_qtr (current s)"
    and dates: "dates = dim_date_qtr (current s)" "distinct (map d_quarter_key dates)"
    and geos: "geos = dim_geo (current s)" "distinct (map g_geo_key geos)"
    and products: "products = dim_product (current s)" "distinct (map p_product_key products)"
    and f: "f \<in> set facts"
    and d: "d \<in> set dates" "f_quarter_key f = d_quarter_key d"
    and g: "g \<in> set geos" "f_geo_key f = g_geo_key g"
    and p: "p \<in> set products" "f_product_key f = p_product_key p"
    and fs: "fs = filter (\<lambda>f'. \<exists>d' g' p'.
          d' \<in> set dates \<and> f_quarter_key f' = d_quarter_key d'
        \<and> g' \<in> set geos \<and> f_geo_key f' = g_geo_key g'
        \<and> p' \<in> set products \<and> f_product_key f' = p_product_key p'
        \<and> d_year d' = d_year d
        \<and> map_option ck (g_country g') = map_option ck (g_country g)
        \<and> map_option ck (p_product_type p') = map_option ck (p_product_type p)) facts"
  shows "(\<exists>c t row. g_country g = Some c \<and> p_product_type p = Some t
      \<and> filter (\<lambda>r. ay_year r = d_year d \<and> ck (ay_country r) = ck c
                    \<and> ck (ay_product_type r) = ck t) table = [row]
      \<and> ay_total_originations_cnt row =
          (if List.map_filter f_originations_cnt fs = [] then None
           else Some (sum_list (List.map_filter f_originations_cnt fs)))
      \<and> ay_total_origination_amt row =
          (if List.map_filter f_origination_amt fs = [] then None
           else Some (round_dec 2 (sum_list (List.map_filter f_origination_amt fs))))
      \<and> ay_total_balance_amt row =
          (if List.map_filter f_balance_amt fs = [] then None
           else Some (round_dec 2 (sum_list (List.map_filter f_balance_amt fs))))
      \<and> ay_avg_default_rate row =
          (if List.map_filter f_default_rate fs = [] then None
           else Some (round_dec 4 (sum_list (List.map_filter f_default_rate fs)
                                    / real (length (List.map_filter f_default_rate fs)))))
      \<and> ay_avg_prime_rate row =
          (if List.map_filter f_prime_rate fs = [] then None
           else Some (round_dec 4 (sum_list (List.map_filter f_prime_rate fs)
                                    / real (length (List.map_filter f_prime_rate fs)))))
      \<and> ay_avg_lending_rate row =
          (if List.map_filter f_lending_rate fs = [] then None
           else Some (round_dec 4 (sum_list (List.map_filter f_lending_rate fs)
                                    / real (length (List.map_filter f_lending_rate fs))))))
    \<and> (\<forall>r\<in>set table. \<exists>f' d' g' p'.
          f' \<in> set facts
        \<and> d' \<in> set dates \<and> f_quarter_key f' = d_quarter_key d'
        \<and> g' \<in> set geos \<and> f_geo_key f' = g_geo_key g'
        \<and> p' \<in> set products \<and> f_product_key f' = p_product_key p'
        \<and> ay_year r = d_year d' \<and> g_country g' = Some (ay_country r)
        \<and> p_product_type p' = Some (ay_product_type r))
    \<and> distinct (map (\<lambda>r. (ay_year r, ck (ay_country r), ck (ay_product_type r))) table)
    \<and> (\<forall>n x. (\<exists>m::int. round_dec n x = of_int m / 10 ^ n)
          \<and> \<bar>round_dec n x - x\<bar> \<le> 1 / (2 * 10 ^ n)
          \<and> (\<bar>round_dec n x - x\<bar> = 1 / (2 * 10 ^ n) \<longrightarrow> \<bar>x\<bar> < \<bar>round_dec n x\<bar>))
    \<and> agg_credit_metrics_yearly
         (committed (final (idle scenario_a) (RefreshOLAPAggregations ck (idle scenario_a))))
        = [scenario_a_yearly]
    \<and> agg_credit_metrics_yearly
         (committed (final (idle scenario_a) (RefreshAllAggregations ck (idle scenario_a))))
        = [scenario_a_yearly]
    \<and> scenario_a_yearly =
        \<lparr>ay_year = 2024, ay_country = ''US'', ay_product_type = ''CreditCard'',
         ay_total_originations_cnt = Some 100, ay_total_origination_amt = Some 500000,
         ay_total_balance_amt = None, ay_avg_default_rate = Some (3/100),
         ay_avg_prime_rate = None, ay_avg_lending_rate = None\<rparr>"
proof -
  let ?w = "current s"
  from refreshed_yearly_table [OF ok]
  have st: "list_all2 (\<lambda>x y. store_yearly_row x = Inr y) (select_yearly ck ?w) table"
    and dist: "distinct (map (ay_key ck) table)"
    by (simp_all only: tbl)
  have dd: "distinct (map d_quarter_key (dim_date_qtr ?w))"
    and dg: "distinct (map g_geo_key (dim_geo ?w))"
    and dp: "distinct (map p_product_key (dim_product ?w))"
    using dates geos products by simp_all
  have j: "(f, d, g, p) \<in> set (fact_join ?w)"
    using f d g p facts dates(1) geos(1) products(1) by (simp add: fact_join_def star_join_set)
  from stored_row_of_join_row [OF st j] obtain j0 row
    where j0: "j0 \<in> set (fact_join ?w)" and k: "yearly_key ck j0 = yearly_key ck (f, d, g, p)"
      and row: "row \<in> set table"
      and sr: "store_yearly_row (yearly_aggregate ck ?w j0) = Inr row" by blast
  obtain f0 d0 g0 p0 where j0': "j0 = (f0, d0, g0, p0)" by (cases j0) auto
  have grp: "yearly_group ck ?w (yearly_key ck (f0, d0, g0, p0)) = fs"
    using k unfolding j0' by (simp only: yearly_group_facts [OF dd dg dp] fs facts dates geos products)
  note s = store_yearly_row_Inr [OF sr]
  from s have c0: "g_country g0 = Some (ay_country row)"
    and t0: "p_product_type p0 = Some (ay_product_type row)"
    and y0: "ay_year row = d_year d0"
    by (simp_all add: j0' yearly_aggregate_def)
  from k c0 t0 have yd: "d_year d0 = d_year d"
    and cg: "map_option ck (g_country g) = Some (ck (ay_country row))"
    and tp: "map_option ck (p_product_type p) = Some (ck (ay_product_type row))"
    by (simp_all add: j0' yearly_key_def)
  from cg obtain c where c: "g_country g = Some c" and ckc: "ck c = ck (ay_country row)" by auto
  from tp obtain t where t: "p_product_type p = Some t" and ckt: "ck t = ck (ay_product_type row)"
    by auto
  have "filter (\<lambda>r. ay_key ck r = ay_key ck row) table = [row]"
    using dist row by (rule filter_key_singleton)
  moreover have "(\<lambda>r. ay_key ck r = ay_key ck row)
      = (\<lambda>r. ay_year r = d_year d \<and> ck (ay_country r) = ck c \<and> ck (ay_product_type r) = ck t)"
    by (auto simp: ay_key_def y0 yd ckc ckt)
  ultimately have one: "filter (\<lambda>r. ay_year r = d_year d \<and> ck (ay_country r) = ck c
                    \<and> ck (ay_product_type r) = ck t) table = [row]" by simp
  from s have vals: "ay_total_originations_cnt row =
          (if List.map_filter f_originations_cnt fs = [] then None
           else Some (sum_list (List.map_filter f_originations_cnt fs)))
      \<and> ay_total_origination_amt row =
          (if List.map_filter f_origination_amt fs = [] then None
           else Some (round_dec 2 (sum_list (List.map_filter f_origination_amt fs))))
      \<and> ay_total_balance_amt row =
          (if List.map_filter f_balance_amt fs = [] then None
           else Some (round_dec 2 (sum_list (List.map_filter f_balance_amt fs))))
      \<and> ay_avg_default_rate row =
          (if List.map_filter f_default_rate fs = [] then None
           else Some (round_dec 4 (sum_list (List.map_filter f_default_rate fs)
                                    / real (length (List.map_filter f_default_rate fs)))))
      \<and> ay_avg_prime_rate row =
          (if List.map_filter f_prime_rate fs = [] then None
           else Some (round_dec 4 (sum_list (List.map_filter f_prime_rate fs)
                                    / real (length (List.map_filter f_prime_rate fs)))))
      \<and> ay_avg_lending_rate row =
          (if List.map_filter f_lending_rate fs = [] then None
           else Some (round_dec 4 (sum_list (List.map_filter f_lending_rate fs)
                                    / real (length (List.map_filter f_lending_rate fs)))))"
    by (simp add: j0' yearly_aggregate_def grp sql_sum_map sql_sum_int_map sql_avg_map)
  have shown: "\<forall>r\<in>set table. \<exists>f' d' g' p'.
          f' \<in> set facts
        \<and> d' \<in> set dates \<and> f_quarter_key f' = d_quarter_key d'
        \<and> g' \<in> set geos \<and> f_geo_key f' = g_geo_key g'
        \<and> p' \<in> set products \<and> f_product_key f' = p_product_key p'
        \<and> ay_year r = d_year d' \<and> g_country g' = Some (ay_country r)
        \<and> p_product_type p' = Some (ay_product_type r)"
  proof
    fix r assume "r \<in> set table"
    from join_row_of_stored_row [OF st this] obtain f' d' g' p'
      where "(f', d', g', p') \<in> set (fact_join ?w)" and "ay_year r = d_year d'"
        and "g_country g' = Some (ay_country r)" and "p_product_type p' = Some (ay_product_type r)"
      by blast
    then show "\<exists>f' d' g' p'.
          f' \<in> set facts
        \<and> d' \<in> set dates \<and> f_quarter_key f' = d_quarter_key d'
        \<and> g' \<in> set geos \<and> f_geo_key f' = g_geo_key g'
        \<and> p' \<in> set products \<and> f_product_key f' = p_product_key p'
        \<and> ay_year r = d_year d' \<and> g_country g' = Some (ay_country r)
        \<and> p_product_type p' = Some (ay_product_type r)"
      unfolding facts dates(1) geos(1) products(1) fact_join_def star_join_set by blast
  qed
  have keys: "distinct (map (\<lambda>r. (ay_year r, ck (ay_country r), ck (ay_product_type r))) table)"
    using dist by (simp add: ay_key_def [abs_def])
  have rnd: "\<forall>n x. (\<exists>m::int. round_dec n x = of_int m / 10 ^ n)
          \<and> \<bar>round_dec n x - x\<bar> \<le> 1 / (2 * 10 ^ n)
          \<and> (\<bar>round_dec n x - x\<bar> = 1 / (2 * 10 ^ n) \<longrightarrow> \<bar>x\<bar> < \<bar>round_dec n x\<bar>)"
    using round_dec_nearest by blast
  have a1: "agg_credit_metrics_yearly
         (committed (final (idle scenario_a) (RefreshOLAPAggregations ck (idle scenario_a))))
        = [scenario_a_yearly]"
    by (simp add: final_def RefreshOLAPAggregations_scenario_a, simp add: idle_def)
  have a2: "agg_credit_metrics_yearly
         (committed (final (idle scenario_a) (RefreshAllAggregations ck (idle scenario_a))))
        = [scenario_a_yearly]"
    by (simp add: final_def RefreshAllAggregations_scenario_a, simp add: idle_def)
  have a3: "scenario_a_yearly =
        \<lparr>ay_year = 2024, ay_country = ''US'', ay_product_type = ''CreditCard'',
         ay_total_originations_cnt = Some 100, ay_total_origination_amt = Some 500000,
         ay_total_balance_amt = None, ay_avg_default_rate = Some (3/100),
         ay_avg_prime_rate = None, ay_avg_lending_rate = None\<rparr>"
    by (simp add: scenario_a_yearly_def)
  from c t one vals shown keys rnd a1 a2 a3 show ?thesis by blast
qed

lemma ascii_ci_examples:
  "ascii_ci ''US'' = ''US''"
  "ascii_ci ''us'' = ''US''"
  "ascii_ci ''CreditCard'' = ''CREDITCARD''"
  by (simp_all add: ascii_ci_def ascii_upper_def)

lemma two_spellings_join:
  "fact_join two_spellings =
     [(\<lparr>f_quarter_key = 20243, f_geo_key = 1, f_product_key = 1,
          f_originations_cnt = Some 100, f_origination_amt = Some 500000, f_balance_amt = None,
          f_default_rate = Some (1/10000), f_prime_rate = None, f_lending_rate = None\<rparr>,
       \<lparr>d_quarter_key = 20243, d_year = 2024, d_quarter = 3,
          d_quarter_start = 19905, d_quarter_end = 19996\<rparr>,
       \<lparr>g_geo_key = 1, g_country = Some ''US'', g_state_province = Some ''NY'', g_city = None\<rparr>,
       \<lparr>p_product_key = 1, p_product_code = Some ''CC'', p_product_type = Some ''CreditCard'',
          p_segment = Some ''Retail''\<rparr>),
      (\<lparr>f_quarter_key = 20244, f_geo_key = 2, f_product_key = 1,
          f_originations_cnt = Some 100, f_origination_amt = Some 500000, f_balance_amt = None,
          f_default_rate = Some (2/10000), f_prime_rate = None, f_lending_rate = None\<rparr>,
       \<lparr>d_quarter_key = 20244, d_year = 2024, d_quarter = 4,
          d_quarter_start = 19997, d_quarter_end = 20088\<rparr>,
       \<lparr>g_geo_key = 2, g_country = Some ''us'', g_state_province = Some ''CA'', g_city = None\<rparr>,
       \<lparr>p_product_key = 1, p_product_code = Some ''CC'', p_product_type = Some ''CreditCard'',
          p_segment = Some ''Retail''\<rparr>)]"
  by (simp add: fact_join_def star_join_def two_spellings_def)

lemma two_spellings_group:
  "yearly_group ascii_ci two_spellings (2024, Some ''US'', Some ''CREDITCARD'')
     = fact_credit_metrics_qtr two_spellings"
  by (simp add: yearly_group_def two_spellings_join yearly_key_def ascii_ci_examples)
     (simp add: two_spellings_def)

lemma select_yearly_two_spellings:
  "select_yearly ascii_ci two_spellings =
     [\<lparr>ys_year = 2024, ys_country = Some ''US'', ys_product_type = Some ''CreditCard'',
       ys_total_originations_cnt = Some 200, ys_total_origination_amt = Some 1000000,
       ys_total_balance_amt = None, ys_avg_default_rate = Some (15/100000),
       ys_avg_prime_rate = None, ys_avg_lending_rate = None\<rparr>]"
proof -
  have "first_rows (yearly_key ascii_ci) [] (fact_join two_spellings) = [hd (fact_join two_spellings)]"
    by (simp add: two_spellings_join yearly_key_def ascii_ci_examples)
  then show ?thesis
    by (simp add: select_yearly_def)
       (simp add: two_spellings_join yearly_aggregate_def yearly_key_def ascii_ci_examples
          two_spellings_group,
        simp add: two_spellings_def sql_sum_def sql_sum_int_def sql_avg_def)
qed

lemma insert_yearly_two_spellings:
  "insert_agg_credit_metrics_yearly ascii_ci (two_spellings\<lparr>agg_credit_metrics_yearly := []\<rparr>) =
     Inr (two_spellings\<lparr>agg_credit_metrics_yearly := [two_quarters_yearly]\<rparr>)"
  by (simp add: insert_agg_credit_metrics_yearly_def select_yearly_two_spellings store_yearly_row_def
        sql_bind_def store_not_null_def store_bigint_def store_decimal_def round_dec_def
        ay_key_def two_quarters_yearly_def)

lemma RefreshOLAPAggregations_two_spellings:
  "RefreshOLAPAggregations ascii_ci (idle two_spellings) =
     ([idle (two_spellings\<lparr>agg_credit_metrics_yearly := []\<rparr>),
       idle (two_spellings\<lparr>agg_credit_metrics_yearly := [two_quarters_yearly]\<rparr>)], None)"
  by (simp add: RefreshOLAPAggregations_def RefreshOLAPAggregations_body_def TRUNCATE_TABLE_def
        INSERT_SELECT_def idle_def truncate_agg_credit_metrics_yearly_def
        insert_yearly_two_spellings)

theorem yearly_rollup_after_refresh_witness:
  "RefreshOLAPAggregations ascii_ci (idle two_spellings) =
     ([idle (two_spellings\<lparr>agg_credit_metrics_yearly := []\<rparr>),
       idle (two_spellings\<lparr>agg_credit_metrics_yearly := [two_quarters_yearly]\<rparr>)], None)
   \<and> distinct (map d_quarter_key (dim_date_qtr two_spellings))
   \<and> distinct (map g_geo_key (dim_geo two_spellings))
   \<and> distinct (map p_product_key (dim_product two_spellings))
   \<and> map g_country (dim_geo two_spellings) = [Some ''US'', Some ''us'']
   \<and> (\<exists>row. filter (\<lambda>r. ay_year r = 2024 \<and> ascii_ci (ay_country r) = ascii_ci ''us''
                  \<and> ascii_ci (ay_product_type r) = ascii_ci ''CreditCard'')
          (agg_credit_metrics_yearly (committed (last
             [idle two_spellings, idle (two_spellings\<lparr>agg_credit_metrics_yearly := []\<rparr>),
              idle (two_spellings\<lparr>agg_credit_metrics_yearly := [two_quarters_yearly]\<rparr>)]))) = [row]
        \<and> ay_total_originations_cnt row = Some 200
        \<and> ay_total_origination_amt row = Some 1000000
        \<and> ay_total_balance_amt row = None
        \<and> ay_avg_default_rate row = Some (2/10000)
        \<and> ay_avg_prime_rate row = None
        \<and> ay_avg_lending_rate row = None)"
proof -
  let ?f = "\<lparr>f_quarter_key = 20244, f_geo_key = 2, f_product_key = 1,
          f_originations_cnt = Some 100, f_origination_amt = Some 500000, f_balance_amt = None,
          f_default_rate = Some (2/10000), f_prime_rate = None, f_lending_rate = None\<rparr>"
  let ?d = "\<lparr>d_quarter_key = 20244, d_year = 2024, d_quarter = 4,
          d_quarter_start = 19997, d_quarter_end = 20088\<rparr>"
  let ?g = "\<lparr>g_geo_key = 2, g_country = Some ''us'', g_state_province = Some ''CA'', g_city = None\<rparr>"
  let ?p = "\<lparr>p_product_key = 1, p_product_code = Some ''CC'', p_product_type = Some ''CreditCard'',
          p_segment = Some ''Retail''\<rparr>"
  let ?s = "idle two_spellings"
  let ?trace = "[idle (two_spellings\<lparr>agg_credit_metrics_yearly := []\<rparr>),
       idle (two_spellings\<lparr>agg_credit_metrics_yearly := [two_quarters_yearly]\<rparr>)]"
  let ?table = "agg_credit_metrics_yearly (committed (last (?s # ?trace)))"
  have ok: "RefreshOLAPAggregations ascii_ci ?s = (?trace, None)
     \<or> RefreshAllAggregations ascii_ci ?s = (?trace, None)"
    by (simp add: RefreshOLAPAggregations_two_spellings)
  have dd: "distinct (map d_quarter_key (dim_date_qtr (current ?s)))"
    and dg: "distinct (map g_geo_key (dim_geo (current ?s)))"
    and dp: "distinct (map p_product_key (dim_product (current ?s)))"
    by (simp_all add: idle_def two_spellings_def)
  have f: "?f \<in> set (fact_credit_metrics_qtr (current ?s))"
    and d: "?d \<in> set (dim_date_qtr (current ?s))" "f_quarter_key ?f = d_quarter_key ?d"
    and g: "?g \<in> set (dim_geo (current ?s))" "f_geo_key ?f = g_geo_key ?g"
    and p: "?p \<in> set (dim_product (current ?s))" "f_product_key ?f = p_product_key ?p"
    by (simp_all add: idle_def two_spellings_def)
  have w: "current ?s = two_spellings" by (simp add: idle_def)
  have fs: "fact_credit_metrics_qtr two_spellings = filter (\<lambda>f'. \<exists>d' g' p'.
          d' \<in> set (dim_date_qtr (current ?s)) \<and> f_quarter_key f' = d_quarter_key d'
        \<and> g' \<in> set (dim_geo (current ?s)) \<and> f_geo_key f' = g_geo_key g'
        \<and> p' \<in> set (dim_product (current ?s)) \<and> f_product_key f' = p_product_key p'
        \<and> d_year d' = d_year ?d
        \<and> map_option ascii_ci (g_country g') = map_option ascii_ci (g_country ?g)
        \<and> map_option ascii_ci (p_product_type p') = map_option ascii_ci (p_product_type ?p))
       (fact_credit_metrics_qtr (current ?s))"
  proof -
    have "yearly_key ascii_ci (?f, ?d, ?g, ?p) = (2024, Some ''US'', Some ''CREDITCARD'')"
      by (simp add: yearly_key_def ascii_ci_examples)
    with two_spellings_group
    have "yearly_group ascii_ci (current ?s) (yearly_key ascii_ci (?f, ?d, ?g, ?p))
            = fact_credit_metrics_qtr two_spellings"
      by (simp only: w)
    then show ?thesis by (simp only: yearly_group_facts [OF dd dg dp])
  qed
  from yearly_rollup_after_refresh [OF ok refl refl refl dd refl dg refl dp f d g p fs]
  obtain c t row where c: "g_country ?g = Some c" and t: "p_product_type ?p = Some t"
    and one: "filter (\<lambda>r. ay_year r = d_year ?d \<and> ascii_ci (ay_country r) = ascii_ci c
                    \<and> ascii_ci (ay_product_type r) = ascii_ci t) ?table = [row]"
    and vals: "ay_total_originations_cnt row =
          (if List.map_filter f_originations_cnt (fact_credit_metrics_qtr two_spellings) = [] then None
           else Some (sum_list (List.map_filter f_originations_cnt (fact_credit_metrics_qtr two_spellings))))"
      "ay_total_origination_amt row =
          (if List.map_filter f_origination_amt (fact_credit_metrics_qtr two_spellings) = [] then None
           else Some (round_dec 2 (sum_list (List.map_filter f_origination_amt (fact_credit_metrics_qtr two_spellings)))))"
      "ay_total_balance_amt row =
          (if List.map_filter f_balance_amt (fact_credit_metrics_qtr two_spellings) = [] then None
           else Some (round_dec 2 (sum_list (List.map_filter f_balance_amt (fact_credit_metrics_qtr two_spellings)))))"
      "ay_avg_default_rate row =
          (if List.map_filter f_default_rate (fact_credit_metrics_qtr two_spellings) = [] then None
           else Some (round_dec 4 (sum_list (List.map_filter f_default_rate (fact_credit_metrics_qtr two_spellings))
                / real (length (List.map_filter f_default_rate (fact_credit_metrics_qtr two_spellings))))))"
      "ay_avg_prime_rate row =
          (if List.map_filter f_prime_rate (fact_credit_metrics_qtr two_spellings) = [] then None
           else Some (round_dec 4 (sum_list (List.map_filter f_prime_rate (fact_credit_metrics_qtr two_spellings))
                / real (length (List.map_filter f_prime_rate (fact_credit_metrics_qtr two_spellings))))))"
      "ay_avg_lending_rate row =
          (if List.map_filter f_lending_rate (fact_credit_metrics_qtr two_spellings) = [] then None
           else Some (round_dec 4 (sum_list (List.map_filter f_lending_rate (fact_credit_metrics_qtr two_spellings))
                / real (length (List.map_filter f_lending_rate (fact_credit_metrics_qtr two_spellings))))))"
    by blast
  from c t have ct: "c = ''us''" "t = ''CreditCard''" by simp_all
  from one have one': "filter (\<lambda>r. ay_year r = 2024 \<and> ascii_ci (ay_country r) = ascii_ci ''us''
                  \<and> ascii_ci (ay_product_type r) = ascii_ci ''CreditCard'')
          (agg_credit_metrics_yearly (committed (last
             [idle two_spellings, idle (two_spellings\<lparr>agg_credit_metrics_yearly := []\<rparr>),
              idle (two_spellings\<lparr>agg_credit_metrics_yearly := [two_quarters_yearly]\<rparr>)]))) = [row]"
    by (simp only: ct) simp
  from vals have v: "ay_total_originations_cnt row = Some 200"
    "ay_total_origination_amt row = Some 1000000"
    "ay_total_balance_amt row = None"
    "ay_avg_default_rate row = Some (2/10000)"
    "ay_avg_prime_rate row = None"
    "ay_avg_lending_rate row = None"
    by (simp_all add: two_spellings_def List.map_filter_simps round_dec_def)
  have ds: "distinct (map d_quarter_key (dim_date_qtr two_spellings))
   \<and> distinct (map g_geo_key (dim_geo two_spellings))
   \<and> distinct (map p_product_key (dim_product two_spellings))
   \<and> map g_country (dim_geo two_spellings) = [Some ''US'', Some ''us'']"
    by (simp add: two_spellings_def)
  from RefreshOLAPAggregations_two_spellings ds one' v show ?thesis by blast
qed

text \<open>
  The claim states the arithmetic mean itself. With default rates 0.0001 and 0.0002 in
  one year, country and product type, the mean is 0.00015, which a \<open>DECIMAL(9,4)\<close>
  column cannot hold: the stored average is 0.0002.
\<close>

lemma two_quarters_join:
  "fact_join two_quarters =
     [(\<lparr>f_quarter_key = 20243, f_geo_key = 1, f_product_key = 1,
          f_originations_cnt = Some 100, f_origination_amt = Some 500000, f_balance_amt = None,
          f_default_rate = Some (1/10000), f_prime_rate = None, f_lending_rate = None\<rparr>,
       \<lparr>d_quarter_key = 20243, d_year = 2024, d_quarter = 3,
          d_quarter_start = 19905, d_quarter_end = 19996\<rparr>,
       \<lparr>g_geo_key = 1, g_country = Some ''US'', g_state_province = None, g_city = None\<rparr>,
       \<lparr>p_product_key = 1, p_product_code = Some ''CC'', p_product_type = Some ''CreditCard'',
          p_segment = Some ''Retail''\<rparr>),
      (\<lparr>f_quarter_key = 20244, f_geo_key = 1, f_product_key = 1,
          f_originations_cnt = Some 100, f_origination_amt = Some 500000, f_balance_amt = None,
          f_default_rate = Some (2/10000), f_prime_rate = None, f_lending_rate = None\<rparr>,
       \<lparr>d_quarter_key = 20244, d_year = 2024, d_quarter = 4,
          d_quarter_start = 19997, d_quarter_end = 20088\<rparr>,
       \<lparr>g_geo_key = 1, g_country = Some ''US'', g_state_province = None, g_city = None\<rparr>,
       \<lparr>p_product_key = 1, p_product_code = Some ''CC'', p_product_type = Some ''CreditCard'',
          p_segment = Some ''Retail''\<rparr>)]"
  by (simp add: fact_join_def star_join_def two_quarters_def)

lemma two_quarters_group:
  "yearly_group ck two_quarters (2024, Some (ck ''US''), Some (ck ''CreditCard''))
     = fact_credit_metrics_qtr two_quarters"
  by (simp add: yearly_group_def two_quarters_join yearly_key_def) (simp add: two_quarters_def)

lemma select_yearly_two_quarters:
  "select_yearly ck two_quarters =
     [\<lparr>ys_year = 2024, ys_country = Some ''US'', ys_product_type = Some ''CreditCard'',
       ys_total_originations_cnt = Some 200, ys_total_origination_amt = Some 1000000,
       ys_total_balance_amt = None, ys_avg_default_rate = Some (15/100000),
       ys_avg_prime_rate = None, ys_avg_lending_rate = None\<rparr>]"
proof -
  have "first_rows (yearly_key ck) [] (fact_join two_quarters) = [hd (fact_join two_quarters)]"
    by (simp add: two_quarters_join yearly_key_def)
  then show ?thesis
    by (simp add: select_yearly_def)
       (simp add: two_quarters_join yearly_aggregate_def yearly_key_def two_quarters_group,
        simp add: two_quarters_def sql_sum_def sql_sum_int_def sql_avg_def)
qed

lemma insert_yearly_two_quarters:
  "insert_agg_credit_metrics_yearly ck (two_quarters\<lparr>agg_credit_metrics_yearly := []\<rparr>) =
     Inr (two_quarters\<lparr>agg_credit_metrics_yearly := [two_quarters_yearly]\<rparr>)"
  by (simp add: insert_agg_credit_metrics_yearly_def select_yearly_two_quarters store_yearly_row_def
        sql_bind_def store_not_null_def store_bigint_def store_decimal_def round_dec_def
        ay_key_def two_quarters_yearly_def)

lemma RefreshOLAPAggregations_two_quarters:
  "snd (RefreshOLAPAggregations ck (idle two_quarters)) = None
   \<and> agg_credit_metrics_yearly
        (committed (final (idle two_quarters) (RefreshOLAPAggregations ck (idle two_quarters))))
       = [two_quarters_yearly]"
  by (simp add: RefreshOLAPAggregations_def RefreshOLAPAggregations_body_def TRUNCATE_TABLE_def
        INSERT_SELECT_def idle_def truncate_agg_credit_metrics_yearly_def final_def
        insert_yearly_two_quarters)

theorem yearly_average_rounded_counterexample:
  "snd (RefreshOLAPAggregations ascii_ci (idle two_quarters)) = None
   \<and> map (\<lambda>(f, d, g, p). (d_year d, g_country g, p_product_type p, f_default_rate f))
        (star_join (fact_credit_metrics_qtr two_quarters) (dim_date_qtr two_quarters)
           (dim_geo two_quarters) (dim_product two_quarters))
       = [(2024, Some ''US'', Some ''CreditCard'', Some (1/10000)),
          (2024, Some ''US'', Some ''CreditCard'', Some (2/10000))]
   \<and> map (\<lambda>r. (ay_year r, ay_country r, ay_product_type r, ay_avg_default_rate r))
        (agg_credit_metrics_yearly
           (committed (final (idle two_quarters) (RefreshOLAPAggregations ascii_ci (idle two_quarters)))))
       = [(2024, ''US'', ''CreditCard'', Some (2/10000))]
   \<and> (1/10000 + 2/10000) / 2 = (15/100000 :: real)
   \<and> (2/10000 :: real) \<noteq> 15/100000"
proof -
  have "map (\<lambda>(f, d, g, p). (d_year d, g_country g, p_product_type p, f_default_rate f))
        (star_join (fact_credit_metrics_qtr two_quarters) (dim_date_qtr two_quarters)
           (dim_geo two_quarters) (dim_product two_quarters))
       = [(2024, Some ''US'', Some ''CreditCard'', Some (1/10000)),
          (2024, Some ''US'', Some ''CreditCard'', Some (2/10000))]"
    using two_quarters_join by (simp add: fact_join_def)
  moreover have "map (\<lambda>r. (ay_year r, ay_country r, ay_product_type r, ay_avg_default_rate r))
        (agg_credit_metrics_yearly
           (committed (final (idle two_quarters) (RefreshOLAPAggregations ascii_ci (idle two_quarters)))))
       = [(2024, ''US'', ''CreditCard'', Some (2/10000))]"
    by (simp add: RefreshOLAPAggregations_two_quarters) (simp add: two_quarters_yearly_def)
  moreover have "(1/10000 + 2/10000) / 2 = (15/100000 :: real) \<and> (2/10000 :: real) \<noteq> 15/100000"
    by simp
  ultimately show ?thesis using RefreshOLAPAggregations_two_quarters [of ascii_ci] by blast
qed

subsection \<open>What other connections see, and what a failure leaves\<close>

lemma scenario_a_refreshed_tables:
  "select_yearly ck scenario_a_refreshed = select_yearly ck scenario_a"
  "select_quarterly ck scenario_a_refreshed = select_quarterly ck scenario_a"
  "agg_credit_metrics_yearly scenario_a_refreshed = [scenario_a_yearly]"
  "agg_credit_metrics_quarterly scenario_a_refreshed = [scenario_a_quarterly]"
  by (simp_all add: scenario_a_refreshed_def)

lemma RefreshAllAggregations_scenario_a_refreshed:
  "map (agg_credit_metrics_yearly \<circ> committed)
      (fst (RefreshAllAggregations ck (idle scenario_a_refreshed)))
     = [[scenario_a_yearly], [], [scenario_a_yearly], [scenario_a_yearly], [scenario_a_yearly],
        [scenario_a_yearly]]
   \<and> map (agg_credit_metrics_quarterly \<circ> committed)
        (fst (RefreshAllAggregations ck (idle scenario_a_refreshed)))
     = [[scenario_a_quarterly], [scenario_a_quarterly], [scenario_a_quarterly], [],
        [scenario_a_quarterly], [scenario_a_quarterly]]
   \<and> snd (RefreshAllAggregations ck (idle scenario_a_refreshed)) = None"
  by (simp add: RefreshAllAggregations_def RefreshOLAPAggregations_body_def TRUNCATE_TABLE_def
        INSERT_SELECT_def START_TRANSACTION_def COMMIT_def idle_def
        truncate_agg_credit_metrics_yearly_def truncate_agg_credit_metrics_quarterly_def
        insert_yearly_like_scenario_a insert_quarterly_like_scenario_a scenario_a_refreshed_tables)

lemma select_yearly_no_country:
  "map ys_country (select_yearly ck scenario_a_no_country) = [None]"
  by (simp add: select_yearly_def yearly_aggregate_def yearly_group_def yearly_key_def
        fact_join_def star_join_def scenario_a_no_country_def scenario_a_refreshed_def scenario_a_def)

lemma insert_yearly_no_country:
  "insert_agg_credit_metrics_yearly ck (scenario_a_no_country\<lparr>agg_credit_metrics_yearly := []\<rparr>)
     = Inl (ER_BAD_NULL_ERROR ''country'')"
proof -
  from select_yearly_no_country [of ck] obtain x
    where x: "select_yearly ck scenario_a_no_country = [x]" and c: "ys_country x = None"
    by (cases "select_yearly ck scenario_a_no_country") auto
  from c have "store_yearly_row x = Inl (ER_BAD_NULL_ERROR ''country'')"
    by (simp add: store_yearly_row_def store_not_null_def sql_bind_def)
  with x show ?thesis
    by (simp add: insert_agg_credit_metrics_yearly_def sql_bind_def)
qed

lemma RefreshAllAggregations_no_country:
  "RefreshAllAggregations ck (idle scenario_a_no_country) =
     ([\<lparr>committed = scenario_a_no_country, current = scenario_a_no_country, in_transaction = True\<rparr>,
       idle (scenario_a_no_country\<lparr>agg_credit_metrics_yearly := []\<rparr>),
       idle (scenario_a_no_country\<lparr>agg_credit_metrics_yearly := []\<rparr>)],
      Some (ER_BAD_NULL_ERROR ''country''))"
  by (simp add: RefreshAllAggregations_def RefreshOLAPAggregations_body_def TRUNCATE_TABLE_def
        INSERT_SELECT_def START_TRANSACTION_def idle_def ROLLBACK_def
        truncate_agg_credit_metrics_yearly_def insert_yearly_no_country)

text \<open>
  C2. \<open>TRUNCATE TABLE\<close> commits, so the transaction that \<open>RefreshAllAggregations\<close>
  opens is over before the first \<open>INSERT\<close>, and its \<open>ROLLBACK\<close> restores nothing.
  On Scenario A with both rollups already refreshed, a run that succeeds shows other
  connections an empty yearly table between the truncation and the insert, although the
  table holds the same one row before and after. Once the geography row has lost its
  country, the insert into the yearly table fails (its primary key column \<open>country\<close>
  is \<open>NOT NULL\<close>): the procedure resignals the error and leaves the yearly table empty,
  not as it was. This holds whatever the collation weighs strings by.
\<close>

theorem RefreshAllAggregations_not_atomic:
  "map (agg_credit_metrics_yearly \<circ> committed)
      (fst (RefreshAllAggregations ck (idle scenario_a_refreshed)))
     = [[scenario_a_yearly], [], [scenario_a_yearly], [scenario_a_yearly], [scenario_a_yearly],
        [scenario_a_yearly]]
   \<and> snd (RefreshAllAggregations ck (idle scenario_a_refreshed)) = None
   \<and> agg_credit_metrics_yearly (committed (idle scenario_a_refreshed)) = [scenario_a_yearly]
   \<and> agg_credit_metrics_yearly (committed (idle scenario_a_no_country)) = [scenario_a_yearly]
   \<and> snd (RefreshAllAggregations ck (idle scenario_a_no_country)) = Some (ER_BAD_NULL_ERROR ''country'')
   \<and> agg_credit_metrics_yearly
        (committed (final (idle scenario_a_no_country)
                          (RefreshAllAggregations ck (idle scenario_a_no_country)))) = []"
  by (simp add: RefreshAllAggregations_scenario_a_refreshed RefreshAllAggregations_no_country
        final_def)
     (simp add: idle_def scenario_a_refreshed_def scenario_a_no_country_def)

end
